theory Spec2Isabelle
  imports Complex_Main
begin

section \<open>JavaScript numbers\<close>

text \<open>
  The engine computes with JavaScript numbers. A value of this type is a finite number,
  one of the two infinities, NaN, or \<open>undefined\<close> (what reading a missing property or an
  omitted optional argument gives). Finite numbers are rationals and arithmetic on them is
  exact: the binary rounding of IEEE doubles, overflow to infinity and the sign of zero are
  not modelled. Everything else follows the language: a division by zero gives an infinity
  or NaN, NaN and \<open>undefined\<close> propagate through arithmetic, every comparison with NaN is
  false, and \<open>0\<close>, NaN and \<open>undefined\<close> are the falsy values.
\<close>

datatype jsnum = Fin rat | PInf | NInf | NaN | Undefined

fun truthy :: "jsnum \<Rightarrow> bool" where
  "truthy (Fin x) = (x \<noteq> 0)"
| "truthy PInf = True"
| "truthy NInf = True"
| "truthy NaN = False"
| "truthy Undefined = False"

text \<open>\<open>a || b\<close>\<close>

definition or_else :: "jsnum \<Rightarrow> jsnum \<Rightarrow> jsnum" where
  "or_else a b = (if truthy a then a else b)"

fun neg :: "jsnum \<Rightarrow> jsnum" where
  "neg (Fin x) = Fin (- x)"
| "neg PInf = NInf"
| "neg NInf = PInf"
| "neg NaN = NaN"
| "neg Undefined = NaN"

fun add :: "jsnum \<Rightarrow> jsnum \<Rightarrow> jsnum" where
  "add (Fin x) (Fin y) = Fin (x + y)"
| "add (Fin x) PInf = PInf"
| "add (Fin x) NInf = NInf"
| "add PInf (Fin y) = PInf"
| "add PInf PInf = PInf"
| "add NInf (Fin y) = NInf"
| "add NInf NInf = NInf"
| "add _ _ = NaN"

definition sub :: "jsnum \<Rightarrow> jsnum \<Rightarrow> jsnum" where
  "sub a b = add a (neg b)"

fun mul :: "jsnum \<Rightarrow> jsnum \<Rightarrow> jsnum" where
  "mul (Fin x) (Fin y) = Fin (x * y)"
| "mul (Fin x) PInf = (if x = 0 then NaN else if 0 < x then PInf else NInf)"
| "mul (Fin x) NInf = (if x = 0 then NaN else if 0 < x then NInf else PInf)"
| "mul PInf (Fin y) = (if y = 0 then NaN else if 0 < y then PInf else NInf)"
| "mul NInf (Fin y) = (if y = 0 then NaN else if 0 < y then NInf else PInf)"
| "mul PInf PInf = PInf"
| "mul PInf NInf = NInf"
| "mul NInf PInf = NInf"
| "mul NInf NInf = PInf"
| "mul _ _ = NaN"

text \<open>\<open>a / b\<close>; a zero divisor is taken as \<open>+0\<close>.\<close>

fun divide :: "jsnum \<Rightarrow> jsnum \<Rightarrow> jsnum" where
  "divide (Fin x) (Fin y) =
     (if y \<noteq> 0 then Fin (x / y)
      else if 0 < x then PInf else if x < 0 then NInf else NaN)"
| "divide (Fin x) PInf = Fin 0"
| "divide (Fin x) NInf = Fin 0"
| "divide PInf (Fin y) = (if 0 \<le> y then PInf else NInf)"
| "divide NInf (Fin y) = (if 0 \<le> y then NInf else PInf)"
| "divide _ _ = NaN"

fun lt :: "jsnum \<Rightarrow> jsnum \<Rightarrow> bool" where
  "lt (Fin x) (Fin y) = (x < y)"
| "lt (Fin x) PInf = True"
| "lt NInf (Fin y) = True"
| "lt NInf PInf = True"
| "lt _ _ = False"

fun le :: "jsnum \<Rightarrow> jsnum \<Rightarrow> bool" where
  "le (Fin x) (Fin y) = (x \<le> y)"
| "le (Fin x) PInf = True"
| "le NInf (Fin y) = True"
| "le NInf PInf = True"
| "le PInf PInf = True"
| "le NInf NInf = True"
| "le _ _ = False"

definition ge :: "jsnum \<Rightarrow> jsnum \<Rightarrow> bool" where
  "ge a b = le b a"

definition gt :: "jsnum \<Rightarrow> jsnum \<Rightarrow> bool" where
  "gt a b = lt b a"

text \<open>\<open>Math.min\<close>, \<open>Math.max\<close>: NaN when an argument is NaN.\<close>

fun Math_min :: "jsnum \<Rightarrow> jsnum \<Rightarrow> jsnum" where
  "Math_min NaN b = NaN"
| "Math_min Undefined b = NaN"
| "Math_min a NaN = NaN"
| "Math_min a Undefined = NaN"
| "Math_min a b = (if le a b then a else b)"

fun Math_max :: "jsnum \<Rightarrow> jsnum \<Rightarrow> jsnum" where
  "Math_max NaN b = NaN"
| "Math_max Undefined b = NaN"
| "Math_max a NaN = NaN"
| "Math_max a Undefined = NaN"
| "Math_max a b = (if le a b then b else a)"

text \<open>\<open>Math.round\<close> rounds to the nearest integer, a half towards \<open>+\<infinity>\<close>.\<close>

fun Math_round :: "jsnum \<Rightarrow> jsnum" where
  "Math_round (Fin x) = Fin (of_int \<lfloor>x + 1 / 2\<rfloor>)"
| "Math_round PInf = PInf"
| "Math_round NInf = NInf"
| "Math_round NaN = NaN"
| "Math_round Undefined = NaN"

fun Math_ceil :: "jsnum \<Rightarrow> jsnum" where
  "Math_ceil (Fin x) = Fin (of_int \<lceil>x\<rceil>)"
| "Math_ceil PInf = PInf"
| "Math_ceil NInf = NInf"
| "Math_ceil NaN = NaN"
| "Math_ceil Undefined = NaN"

text \<open>\<open>Math.pow\<close> with a non-negative integer exponent (a loop counter).\<close>

fun Math_pow :: "jsnum \<Rightarrow> nat \<Rightarrow> jsnum" where
  "Math_pow b 0 = Fin 1"
| "Math_pow (Fin x) n = Fin (x ^ n)"
| "Math_pow PInf n = PInf"
| "Math_pow NInf n = (if even n then PInf else NInf)"
| "Math_pow NaN n = NaN"
| "Math_pow Undefined n = NaN"

text \<open>
  Reading a property of a table object whose keys are numbers (\<open>PITCH_FACTORS\<close>):
  \<open>undefined\<close> when the table has no such key.
\<close>

definition get_prop :: "(rat \<times> rat) list \<Rightarrow> rat \<Rightarrow> jsnum" where
  "get_prop tbl k = (case map_of tbl k of None \<Rightarrow> Undefined | Some v \<Rightarrow> Fin v)"

text \<open>
  Reading a property of a table object by a string key. The tables are object literals, so
  a key that is not one of the table's own is looked up in \<open>Object.prototype\<close>: the name
  of one of its members gives that inherited member (a function; for \<open>__proto__\<close> the
  prototype object), which is truthy and is not a number; any other key gives
  \<open>undefined\<close>.
\<close>

definition Object_prototype :: "string list" where
  "Object_prototype =
     [''constructor'', ''__defineGetter__'', ''__defineSetter__'', ''hasOwnProperty'',
      ''__lookupGetter__'', ''__lookupSetter__'', ''isPrototypeOf'',
      ''propertyIsEnumerable'', ''toString'', ''valueOf'', ''__proto__'',
      ''toLocaleString'']"

datatype member = Own rat | Inherited | Missing

definition get_member :: "(string \<times> rat) list \<Rightarrow> string \<Rightarrow> member" where
  "get_member tbl k =
     (case map_of tbl k of
        Some v \<Rightarrow> Own v
      | None \<Rightarrow> if k \<in> set Object_prototype then Inherited else Missing)"

fun member_truthy :: "member \<Rightarrow> bool" where
  "member_truthy (Own v) = (v \<noteq> 0)"
| "member_truthy Inherited = True"
| "member_truthy Missing = False"

text \<open>
  The value read as an operand of the arithmetic: an own entry is its number, an inherited
  member converts to NaN, \<open>undefined\<close> stays \<open>undefined\<close>.
\<close>

fun as_number :: "member \<Rightarrow> jsnum" where
  "as_number (Own v) = Fin v"
| "as_number Inherited = NaN"
| "as_number Missing = Undefined"

section \<open>Types (types/solar.ts)\<close>

datatype RoofOrientation = N | NE | E | SE | S | SW | W | NW | flat

fun RoofOrientation_str :: "RoofOrientation \<Rightarrow> string" where
  "RoofOrientation_str N = ''N''"
| "RoofOrientation_str NE = ''NE''"
| "RoofOrientation_str E = ''E''"
| "RoofOrientation_str SE = ''SE''"
| "RoofOrientation_str S = ''S''"
| "RoofOrientation_str SW = ''SW''"
| "RoofOrientation_str W = ''W''"
| "RoofOrientation_str NW = ''NW''"
| "RoofOrientation_str flat = ''flat''"

datatype HomeOccupancy = always | daytime | evening | variable

fun HomeOccupancy_str :: "HomeOccupancy \<Rightarrow> string" where
  "HomeOccupancy_str always = ''always''"
| "HomeOccupancy_str daytime = ''daytime''"
| "HomeOccupancy_str evening = ''evening''"
| "HomeOccupancy_str variable = ''variable''"

text \<open>
  The inputs of a calculation. Their numeric fields, like the optional irradiance argument
  of \<open>calculateSolarEstimate\<close>, are finite numbers, what a form or a JSON document holds;
  the infinities and NaN arise inside the engine only. The two rate overrides are optional.
  The orientation and the occupancy are values of their union types; at run time they are
  the strings that \<open>RoofOrientation_str\<close> and \<open>HomeOccupancy_str\<close> give, the keys of the
  configuration tables, which are read by string.
\<close>

record CalculatorInputs =
  postcode :: string
  latitude :: rat
  longitude :: rat
  roofOrientation :: RoofOrientation
  roofPitch :: rat
  roofArea :: rat
  shadingFactor :: rat
  annualElectricityUsage :: rat
  homeOccupancy :: HomeOccupancy
  electricityUnitRate :: "rat option"
  exportTariffRate :: "rat option"

record UKEnergyConfig =
  electricityRatePence :: rat
  segExportRatePence :: rat
  standingChargePence :: rat
  lastUpdated :: string
  source :: string

record SystemCostConfig =
  costPerKwpSmall :: rat
  costPerKwpMedium :: rat
  costPerKwpLarge :: rat
  smallMaxKwp :: rat
  mediumMaxKwp :: rat

record SolarConfig =
  gridCarbonFactor :: rat
  systemLossFactor :: rat
  panelAreaPerKwp :: rat
  annualDegradation :: rat
  panelWattage :: rat
  orientationFactors :: "(string \<times> rat) list"
  selfConsumptionFactors :: "(string \<times> rat) list"
  ukAverageIrradiance :: rat

datatype IrradianceSource = PVGIS | UK_AVERAGE

text \<open>The field \<open>calculatedAt\<close>, a reading of the clock, is left out.\<close>

record CalculationMetadata =
  irradianceUsed :: jsnum
  irradianceSource :: IrradianceSource
  electricityRate :: jsnum
  exportRate :: jsnum
  systemLossFactor :: jsnum
  orientationFactor :: jsnum

record MonthlyGeneration =
  month :: nat
  monthName :: string
  generationKwh :: jsnum
  selfConsumedKwh :: jsnum
  exportedKwh :: jsnum

record CalculatorResults =
  recommendedSystemSize :: jsnum
  numberOfPanels :: jsnum
  estimatedAnnualGeneration :: jsnum
  monthlyGeneration :: "MonthlyGeneration list"
  selfConsumptionRatio :: jsnum
  selfConsumedKwh :: jsnum
  exportedKwh :: jsnum
  annualSavings :: jsnum
  annualExportEarnings :: jsnum
  totalAnnualBenefit :: jsnum
  estimatedSystemCost :: jsnum
  paybackPeriod :: jsnum
  roi25Years :: jsnum
  co2SavedAnnually :: jsnum
  co2Saved25Years :: jsnum
  metadata :: CalculationMetadata

datatype ContactTime = morning | afternoon | evening_time

record LeadContact =
  email :: string
  phone :: "string option"
  name :: "string option"
  preferredContactTime :: "ContactTime option"

datatype FactorValue = Number jsnum | Boolean bool

record LeadScoreFactor =
  name :: string
  value' :: FactorValue
  points :: jsnum

datatype Category = hot | warm | cool

record LeadScore =
  totalScore :: jsnum
  category :: Category
  factors :: "LeadScoreFactor list"

section \<open>Constants (lib/solar/constants.ts)\<close>

definition UK_ENERGY_CONFIG :: UKEnergyConfig where
  "UK_ENERGY_CONFIG = \<lparr>
     electricityRatePence = 2769 / 100,
     segExportRatePence = 15,
     standingChargePence = 547 / 10,
     lastUpdated = ''2026-01-01'',
     source = ''Ofgem Price Cap Q1 2026'' \<rparr>"

definition SYSTEM_COST_CONFIG :: SystemCostConfig where
  "SYSTEM_COST_CONFIG = \<lparr>
     costPerKwpSmall = 1500,
     costPerKwpMedium = 1300,
     costPerKwpLarge = 1100,
     smallMaxKwp = 3,
     mediumMaxKwp = 6 \<rparr>"

definition SOLAR_CONFIG :: SolarConfig where
  "SOLAR_CONFIG = \<lparr>
     gridCarbonFactor = 233 / 1000,
     SolarConfig.systemLossFactor = 86 / 100,
     panelAreaPerKwp = 5,
     annualDegradation = 5 / 1000,
     panelWattage = 400,
     orientationFactors =
       [(''S'', 1), (''SE'', 95 / 100), (''SW'', 95 / 100), (''E'', 85 / 100),
        (''W'', 85 / 100), (''NE'', 7 / 10), (''NW'', 7 / 10), (''N'', 55 / 100),
        (''flat'', 9 / 10)],
     selfConsumptionFactors =
       [(''always'', 45 / 100), (''daytime'', 5 / 10), (''evening'', 25 / 100),
        (''variable'', 35 / 100)],
     ukAverageIrradiance = 1000 \<rparr>"

definition REGIONAL_IRRADIANCE :: "(string \<times> rat) list" where
  "REGIONAL_IRRADIANCE =
     [(''South West'', 1100), (''South East'', 1050), (''London'', 1000),
      (''West Midlands'', 950), (''East Midlands'', 950), (''East of England'', 1000),
      (''North West'', 900), (''North East'', 900), (''Yorkshire'', 920),
      (''Wales'', 950),
      (''Scotland South'', 900), (''Scotland Central'', 880), (''Scotland North'', 850),
      (''Scottish Highlands'', 800),
      (''Northern Ireland'', 900),
      (''default'', 950)]"

definition PITCH_FACTORS :: "(rat \<times> rat) list" where
  "PITCH_FACTORS =
     [(0, 9 / 10), (10, 94 / 100), (15, 96 / 100), (20, 98 / 100), (25, 99 / 100),
      (30, 1), (35, 1), (40, 99 / 100), (45, 97 / 100), (50, 94 / 100),
      (60, 88 / 100), (70, 8 / 10), (80, 7 / 10), (90, 55 / 100)]"

text \<open>
  The loop of \<open>getPitchFactor\<close> over the consecutive pairs \<open>pitches[i]\<close>,
  \<open>pitches[i + 1]\<close>; when it ends without returning, the function returns
  \<open>PITCH_FACTORS[35]\<close>.
\<close>

fun pitch_loop :: "jsnum \<Rightarrow> rat list \<Rightarrow> jsnum" where
  "pitch_loop clampedPitch (lower # upper # rest) =
     (if ge clampedPitch (Fin lower) \<and> le clampedPitch (Fin upper) then
        (let ratio = divide (sub clampedPitch (Fin lower)) (sub (Fin upper) (Fin lower))
         in add (get_prop PITCH_FACTORS lower)
              (mul ratio (sub (get_prop PITCH_FACTORS upper) (get_prop PITCH_FACTORS lower))))
      else pitch_loop clampedPitch (upper # rest))"
| "pitch_loop clampedPitch rest = get_prop PITCH_FACTORS 35"

definition getPitchFactor :: "jsnum \<Rightarrow> jsnum" where
  "getPitchFactor pitch =
     (let clampedPitch = Math_max (Fin 0) (Math_min (Fin 90) pitch);
          pitches = sort (map fst PITCH_FACTORS)
      in pitch_loop clampedPitch pitches)"

section \<open>System sizing (lib/solar/calculations.ts)\<close>

definition calculateMaxSystemSize :: "jsnum \<Rightarrow> jsnum" where
  "calculateMaxSystemSize roofArea' =
     (let maxKwp = divide roofArea' (Fin (panelAreaPerKwp SOLAR_CONFIG))
      in divide (Math_round (mul maxKwp (Fin 10))) (Fin 10))"

definition calculateRecommendedSize :: "jsnum \<Rightarrow> jsnum \<Rightarrow> jsnum \<Rightarrow> jsnum \<Rightarrow> jsnum \<Rightarrow> jsnum" where
  "calculateRecommendedSize annualUsage irradiance orientationFactor' pitchFactor shadingFactor' =
     (let effectiveIrradiance =
            mul (mul (mul (mul irradiance orientationFactor') pitchFactor) shadingFactor')
              (Fin (SolarConfig.systemLossFactor SOLAR_CONFIG));
          targetGeneration = mul annualUsage (Fin (9 / 10));
          peakSunHours = effectiveIrradiance;
          recommendedKwp = divide targetGeneration peakSunHours
      in divide (Math_round (mul recommendedKwp (Fin 10))) (Fin 10))"

definition determineFinalSystemSize :: "jsnum \<Rightarrow> jsnum \<Rightarrow> jsnum" where
  "determineFinalSystemSize recommendedKwp maxKwp =
     (let finalKwp = Math_min recommendedKwp maxKwp
      in divide (Math_round (mul finalKwp (Fin 2))) (Fin 2))"

definition calculatePanelCount :: "jsnum \<Rightarrow> jsnum" where
  "calculatePanelCount systemSizeKwp =
     Math_ceil (divide (mul systemSizeKwp (Fin 1000)) (Fin (panelWattage SOLAR_CONFIG)))"

section \<open>Generation estimation\<close>

definition calculateAnnualGeneration :: "jsnum \<Rightarrow> jsnum \<Rightarrow> jsnum \<Rightarrow> jsnum \<Rightarrow> jsnum \<Rightarrow> jsnum" where
  "calculateAnnualGeneration systemSizeKwp irradiance orientationFactor' pitchFactor shadingFactor' =
     (let generation =
            mul (mul (mul (mul (mul systemSizeKwp irradiance) orientationFactor') pitchFactor)
                   shadingFactor')
              (Fin (SolarConfig.systemLossFactor SOLAR_CONFIG))
      in Math_round generation)"

definition getMonthlyDistribution :: "rat list" where
  "getMonthlyDistribution =
     [3 / 100, 5 / 100, 8 / 100, 1 / 10, 12 / 100, 13 / 100,
      13 / 100, 11 / 100, 9 / 100, 7 / 100, 5 / 100, 4 / 100]"

definition monthNames :: "string list" where
  "monthNames =
     [''January'', ''February'', ''March'', ''April'', ''May'', ''June'',
      ''July'', ''August'', ''September'', ''October'', ''November'', ''December'']"

definition calculateMonthlyGeneration :: "jsnum \<Rightarrow> jsnum \<Rightarrow> MonthlyGeneration list" where
  "calculateMonthlyGeneration annualGeneration selfConsumptionRatio' =
     (let distribution = getMonthlyDistribution
      in map (\<lambda>(index, fraction).
            (let generationKwh' = Math_round (mul annualGeneration (Fin fraction));
                 selfConsumedKwh' = Math_round (mul generationKwh' selfConsumptionRatio');
                 exportedKwh' = sub generationKwh' selfConsumedKwh'
             in \<lparr> month = index + 1,
                  monthName = monthNames ! index,
                  generationKwh = generationKwh',
                  MonthlyGeneration.selfConsumedKwh = selfConsumedKwh',
                  MonthlyGeneration.exportedKwh = exportedKwh' \<rparr>))
           (enumerate 0 distribution))"

section \<open>Self-consumption\<close>

definition calculateSelfConsumption :: "string \<Rightarrow> member" where
  "calculateSelfConsumption occupancy = get_member (selfConsumptionFactors SOLAR_CONFIG) occupancy"

section \<open>Financial calculations\<close>

text \<open>A parameter with a default value takes it when the argument is \<open>undefined\<close>.\<close>

definition calculateAnnualSavings :: "jsnum \<Rightarrow> jsnum \<Rightarrow> jsnum" where
  "calculateAnnualSavings selfConsumedKwh' electricityRatePence' =
     (let rate = (if electricityRatePence' = Undefined
                  then Fin (electricityRatePence UK_ENERGY_CONFIG) else electricityRatePence');
          savingsPence = mul selfConsumedKwh' rate
      in divide (Math_round savingsPence) (Fin 100))"

definition calculateExportEarnings :: "jsnum \<Rightarrow> jsnum \<Rightarrow> jsnum" where
  "calculateExportEarnings exportedKwh' exportRatePence =
     (let rate = (if exportRatePence = Undefined
                  then Fin (segExportRatePence UK_ENERGY_CONFIG) else exportRatePence);
          earningsPence = mul exportedKwh' rate
      in divide (Math_round earningsPence) (Fin 100))"

definition calculateSystemCost :: "jsnum \<Rightarrow> jsnum" where
  "calculateSystemCost systemSizeKwp =
     (let costPerKwp =
            (if le systemSizeKwp (Fin (smallMaxKwp SYSTEM_COST_CONFIG))
             then costPerKwpSmall SYSTEM_COST_CONFIG
             else if le systemSizeKwp (Fin (mediumMaxKwp SYSTEM_COST_CONFIG))
             then costPerKwpMedium SYSTEM_COST_CONFIG
             else costPerKwpLarge SYSTEM_COST_CONFIG)
      in Math_round (mul systemSizeKwp (Fin costPerKwp)))"

definition calculatePaybackPeriod :: "jsnum \<Rightarrow> jsnum \<Rightarrow> jsnum" where
  "calculatePaybackPeriod systemCost annualBenefit =
     (if le annualBenefit (Fin 0) then PInf
      else divide (Math_round (mul (divide systemCost annualBenefit) (Fin 10))) (Fin 10))"

text \<open>The loop of \<open>calculateROI25Years\<close>: \<open>for (let year = 1; year <= 25; year++)\<close>.\<close>

function roi_loop :: "jsnum \<Rightarrow> jsnum \<Rightarrow> jsnum \<Rightarrow> jsnum \<Rightarrow> jsnum \<Rightarrow> nat \<Rightarrow> jsnum \<Rightarrow> jsnum" where
  "roi_loop degradation annualGeneration selfConsumptionRatio' electricityRatePence'
       exportRatePence year totalBenefit =
     (if year \<le> 25 then
        (let yearGeneration =
               mul annualGeneration (Math_pow (sub (Fin 1) degradation) (year - 1));
             selfConsumed = mul yearGeneration selfConsumptionRatio';
             exported = sub yearGeneration selfConsumed;
             savings = divide (mul selfConsumed electricityRatePence') (Fin 100);
             exportEarnings = divide (mul exported exportRatePence) (Fin 100)
         in roi_loop degradation annualGeneration selfConsumptionRatio' electricityRatePence'
              exportRatePence (year + 1) (add totalBenefit (add savings exportEarnings)))
      else totalBenefit)"
  by pat_completeness auto
termination
  by (relation "measure (\<lambda>(d, g, q, e, x, year, t). 26 - year)") auto

text \<open>
  \<open>calculateROI25Years\<close> reads the degradation rate from \<open>SOLAR_CONFIG\<close>; the
  configuration is a parameter of the first definition and fixed in the second.
\<close>

definition calculateROI25Years_with ::
  "SolarConfig \<Rightarrow> jsnum \<Rightarrow> jsnum \<Rightarrow> jsnum \<Rightarrow> jsnum \<Rightarrow> jsnum \<Rightarrow> jsnum" where
  "calculateROI25Years_with config annualGeneration selfConsumptionRatio'
       electricityRatePence' exportRatePence systemCost =
     (let totalBenefit = Fin 0;
          degradation = Fin (annualDegradation config)
      in Math_round
           (sub (roi_loop degradation annualGeneration selfConsumptionRatio'
                   electricityRatePence' exportRatePence 1 totalBenefit)
              systemCost))"

definition calculateROI25Years :: "jsnum \<Rightarrow> jsnum \<Rightarrow> jsnum \<Rightarrow> jsnum \<Rightarrow> jsnum \<Rightarrow> jsnum" where
  "calculateROI25Years = calculateROI25Years_with SOLAR_CONFIG"

section \<open>Environmental impact\<close>

definition calculateCO2Savings :: "jsnum \<Rightarrow> jsnum" where
  "calculateCO2Savings annualGenerationKwh =
     Math_round (mul annualGenerationKwh (Fin (gridCarbonFactor SOLAR_CONFIG)))"

function co2_loop :: "jsnum \<Rightarrow> jsnum \<Rightarrow> nat \<Rightarrow> jsnum \<Rightarrow> jsnum" where
  "co2_loop degradation annualGeneration year totalGeneration =
     (if year \<le> 25 then
        co2_loop degradation annualGeneration (year + 1)
          (add totalGeneration
             (mul annualGeneration (Math_pow (sub (Fin 1) degradation) (year - 1))))
      else totalGeneration)"
  by pat_completeness auto
termination
  by (relation "measure (\<lambda>(d, g, year, t). 26 - year)") auto

definition calculateCO2Savings25Years :: "jsnum \<Rightarrow> jsnum" where
  "calculateCO2Savings25Years annualGeneration =
     (let totalGeneration = Fin 0;
          degradation = Fin (annualDegradation SOLAR_CONFIG)
      in Math_round
           (mul (co2_loop degradation annualGeneration 1 totalGeneration)
              (Fin (gridCarbonFactor SOLAR_CONFIG))))"

section \<open>Helper functions\<close>

definition getOrientationFactor :: "string \<Rightarrow> member" where
  "getOrientationFactor orientation = get_member (orientationFactors SOLAR_CONFIG) orientation"

definition getRegionalIrradiance :: "string \<Rightarrow> member" where
  "getRegionalIrradiance region =
     (if member_truthy (get_member REGIONAL_IRRADIANCE region)
      then get_member REGIONAL_IRRADIANCE region
      else get_member REGIONAL_IRRADIANCE ''default'')"

section \<open>Main calculation pipeline\<close>

text \<open>
  An optional number: absent is \<open>undefined\<close>. The orientation and the occupancy of the
  inputs are values of their union types, whose names are keys of the two factor tables:
  the pipeline computes with the entries read, as numbers.
\<close>

fun optional :: "rat option \<Rightarrow> jsnum" where
  "optional None = Undefined"
| "optional (Some x) = Fin x"

definition calculateSolarEstimate :: "CalculatorInputs \<Rightarrow> rat option \<Rightarrow> CalculatorResults" where
  "calculateSolarEstimate inputs irradiance =
     (let orientationFactor' =
            as_number (getOrientationFactor (RoofOrientation_str (roofOrientation inputs)));
          pitchFactor = getPitchFactor (Fin (roofPitch inputs));
          shadingFactor' = Fin (shadingFactor inputs);
          usedIrradiance = or_else (optional irradiance) (Fin (ukAverageIrradiance SOLAR_CONFIG));
          irradianceSource' = (if truthy (optional irradiance) then PVGIS else UK_AVERAGE);
          electricityRate' =
            or_else (optional (electricityUnitRate inputs))
              (Fin (electricityRatePence UK_ENERGY_CONFIG));
          exportRate' =
            or_else (optional (exportTariffRate inputs))
              (Fin (segExportRatePence UK_ENERGY_CONFIG));
          maxSize = calculateMaxSystemSize (Fin (roofArea inputs));
          recommendedSize =
            calculateRecommendedSize (Fin (annualElectricityUsage inputs)) usedIrradiance
              orientationFactor' pitchFactor shadingFactor';
          finalSize = determineFinalSystemSize recommendedSize maxSize;
          panelCount = calculatePanelCount finalSize;
          annualGeneration =
            calculateAnnualGeneration finalSize usedIrradiance orientationFactor' pitchFactor
              shadingFactor';
          selfConsumptionRatio' =
            as_number (calculateSelfConsumption (HomeOccupancy_str (homeOccupancy inputs)));
          selfConsumedKwh' = Math_round (mul annualGeneration selfConsumptionRatio');
          exportedKwh' = sub annualGeneration selfConsumedKwh';
          monthlyGeneration' = calculateMonthlyGeneration annualGeneration selfConsumptionRatio';
          annualSavings' = calculateAnnualSavings selfConsumedKwh' electricityRate';
          annualExportEarnings' = calculateExportEarnings exportedKwh' exportRate';
          totalAnnualBenefit' = add annualSavings' annualExportEarnings';
          systemCost = calculateSystemCost finalSize;
          paybackPeriod' = calculatePaybackPeriod systemCost totalAnnualBenefit';
          roi25Years' =
            calculateROI25Years annualGeneration selfConsumptionRatio' electricityRate'
              exportRate' systemCost;
          co2SavedAnnually' = calculateCO2Savings annualGeneration;
          co2Saved25Years' = calculateCO2Savings25Years annualGeneration;
          metadata' = \<lparr>
            irradianceUsed = usedIrradiance,
            irradianceSource = irradianceSource',
            electricityRate = electricityRate',
            exportRate = exportRate',
            CalculationMetadata.systemLossFactor = Fin (SolarConfig.systemLossFactor SOLAR_CONFIG),
            orientationFactor = orientationFactor' \<rparr>
      in \<lparr> recommendedSystemSize = finalSize,
           numberOfPanels = panelCount,
           estimatedAnnualGeneration = annualGeneration,
           monthlyGeneration = monthlyGeneration',
           selfConsumptionRatio = selfConsumptionRatio',
           CalculatorResults.selfConsumedKwh = selfConsumedKwh',
           CalculatorResults.exportedKwh = exportedKwh',
           annualSavings = annualSavings',
           annualExportEarnings = annualExportEarnings',
           totalAnnualBenefit = totalAnnualBenefit',
           estimatedSystemCost = systemCost,
           paybackPeriod = paybackPeriod',
           roi25Years = roi25Years',
           co2SavedAnnually = co2SavedAnnually',
           co2Saved25Years = co2Saved25Years',
           metadata = metadata' \<rparr>)"

section \<open>Lead scoring (lib/leads/scoring.ts)\<close>

definition SCORE_THRESHOLDS_hot :: rat where "SCORE_THRESHOLDS_hot = 70"
definition SCORE_THRESHOLDS_warm :: rat where "SCORE_THRESHOLDS_warm = 40"

definition SCORING_WEIGHTS_systemSize :: rat where "SCORING_WEIGHTS_systemSize = 20"
definition SCORING_WEIGHTS_paybackPeriod :: rat where "SCORING_WEIGHTS_paybackPeriod = 20"
definition SCORING_WEIGHTS_annualSavings :: rat where "SCORING_WEIGHTS_annualSavings = 15"
definition SCORING_WEIGHTS_roofArea :: rat where "SCORING_WEIGHTS_roofArea = 10"
definition SCORING_WEIGHTS_phoneProvided :: rat where "SCORING_WEIGHTS_phoneProvided = 15"
definition SCORING_WEIGHTS_nameProvided :: rat where "SCORING_WEIGHTS_nameProvided = 5"
definition SCORING_WEIGHTS_selfConsumption :: rat where "SCORING_WEIGHTS_selfConsumption = 10"
definition SCORING_WEIGHTS_usageLevel :: rat where "SCORING_WEIGHTS_usageLevel = 5"

text \<open>An optional string is truthy when it is present and not empty.\<close>

fun present :: "string option \<Rightarrow> bool" where
  "present None = False"
| "present (Some s) = (s \<noteq> [])"

definition calculateLeadScore :: "CalculatorResults \<Rightarrow> LeadContact \<Rightarrow> LeadScore" where
  "calculateLeadScore results contact =
     (let systemSizePoints =
            Math_min (Fin SCORING_WEIGHTS_systemSize)
              (Math_round
                 (mul (divide (recommendedSystemSize results) (Fin 6))
                    (Fin SCORING_WEIGHTS_systemSize)));
          f1 = \<lparr> name = ''System Size'', value' = Number (recommendedSystemSize results),
                 points = systemSizePoints \<rparr>;
          paybackScore =
            (if le (paybackPeriod results) (Fin 7) then Fin SCORING_WEIGHTS_paybackPeriod
             else if ge (paybackPeriod results) (Fin 15) then Fin 0
             else Math_round
                    (mul (divide (sub (Fin 15) (paybackPeriod results)) (Fin 8))
                       (Fin SCORING_WEIGHTS_paybackPeriod)));
          f2 = \<lparr> name = ''Payback Period'', value' = Number (paybackPeriod results),
                 points = paybackScore \<rparr>;
          savingsPoints =
            Math_min (Fin SCORING_WEIGHTS_annualSavings)
              (Math_round
                 (mul (divide (totalAnnualBenefit results) (Fin 500))
                    (Fin SCORING_WEIGHTS_annualSavings)));
          f3 = \<lparr> name = ''Annual Savings'', value' = Number (totalAnnualBenefit results),
                 points = savingsPoints \<rparr>;
          phonePoints =
            (if present (phone contact) then Fin SCORING_WEIGHTS_phoneProvided else Fin 0);
          f4 = \<lparr> name = ''Phone Provided'', value' = Boolean (present (phone contact)),
                 points = phonePoints \<rparr>;
          namePoints =
            (if present (LeadContact.name contact) then Fin SCORING_WEIGHTS_nameProvided
             else Fin 0);
          f5 = \<lparr> name = ''Name Provided'',
                 value' = Boolean (present (LeadContact.name contact)),
                 points = namePoints \<rparr>;
          selfConsumptionPoints =
            Math_round
              (mul (selfConsumptionRatio results) (Fin SCORING_WEIGHTS_selfConsumption));
          f6 = \<lparr> name = ''Self-Consumption'', value' = Number (selfConsumptionRatio results),
                 points = selfConsumptionPoints \<rparr>;
          roofAreaPoints =
            (if ge (numberOfPanels results) (Fin 12) then Fin SCORING_WEIGHTS_roofArea
             else Math_round
                    (mul (divide (numberOfPanels results) (Fin 12))
                       (Fin SCORING_WEIGHTS_roofArea)));
          f7 = \<lparr> name = ''Roof Area'', value' = Number (numberOfPanels results),
                 points = roofAreaPoints \<rparr>;
          usagePoints =
            Math_min (Fin SCORING_WEIGHTS_usageLevel)
              (Math_round
                 (mul (divide (estimatedAnnualGeneration results) (Fin 4000))
                    (Fin SCORING_WEIGHTS_usageLevel)));
          f8 = \<lparr> name = ''Usage Level'', value' = Number (estimatedAnnualGeneration results),
                 points = usagePoints \<rparr>;
          totalScore' =
            add (add (add (add (add (add (add (add (Fin 0) systemSizePoints) paybackScore)
              savingsPoints) phonePoints) namePoints) selfConsumptionPoints) roofAreaPoints)
              usagePoints;
          category' =
            (if ge totalScore' (Fin SCORE_THRESHOLDS_hot) then hot
             else if ge totalScore' (Fin SCORE_THRESHOLDS_warm) then warm
             else cool)
      in \<lparr> totalScore = totalScore', category = category',
           factors = [f1, f2, f3, f4, f5, f6, f7, f8] \<rparr>)"

section \<open>Example values\<close>

text \<open>
  The results of the scoring examples: the fields the scorer reads are the ones the
  examples fix, the others are those of the test-suite's mock results.
\<close>

definition scoring_results :: CalculatorResults where
  "scoring_results = \<lparr> recommendedSystemSize = Fin 6, numberOfPanels = Fin 15,
     estimatedAnnualGeneration = Fin 5000, monthlyGeneration = [],
     selfConsumptionRatio = Fin (1 / 2), CalculatorResults.selfConsumedKwh = Fin 1620,
     CalculatorResults.exportedKwh = Fin 1980, annualSavings = Fin 448,
     annualExportEarnings = Fin 297, totalAnnualBenefit = Fin 745,
     estimatedSystemCost = Fin 5200, paybackPeriod = Fin 6, roi25Years = Fin 12000,
     co2SavedAnnually = Fin 839, co2Saved25Years = Fin 18000,
     metadata = \<lparr> irradianceUsed = Fin 1000, irradianceSource = PVGIS,
       electricityRate = Fin (2769 / 100), exportRate = Fin 15,
       CalculationMetadata.systemLossFactor = Fin (86 / 100), orientationFactor = Fin 1 \<rparr> \<rparr>"

definition contact_full :: LeadContact where
  "contact_full = \<lparr> email = ''test@example.com'', phone = Some ''07700900123'',
     name = Some ''John Smith'', preferredContactTime = None \<rparr>"

definition contact_email_only :: LeadContact where
  "contact_email_only = \<lparr> email = ''test@example.com'', phone = None,
     name = None, preferredContactTime = None \<rparr>"

text \<open>The inputs of the end-to-end example.\<close>

definition example_inputs :: CalculatorInputs where
  "example_inputs = \<lparr> postcode = ''SW1A 1AA'', latitude = 515 / 10,
     longitude = - (14 / 100), roofOrientation = S, roofPitch = 35, roofArea = 30,
     shadingFactor = 1, annualElectricityUsage = 3500, homeOccupancy = daytime,
     electricityUnitRate = None, exportTariffRate = None \<rparr>"

text \<open>The same house with a roof of 26.5 square metres and a usage of 9000 kWh.\<close>

definition small_roof_inputs :: CalculatorInputs where
  "small_roof_inputs = example_inputs\<lparr> roofArea := 53 / 2, annualElectricityUsage := 9000 \<rparr>"

section \<open>Arithmetic on finite numbers\<close>

lemma sub_Fin [simp]: "sub (Fin x) (Fin y) = Fin (x - y)"
  by (simp add: sub_def)

lemma ge_Fin [simp]: "ge (Fin x) (Fin y) = (y \<le> x)"
  by (simp add: ge_def)

lemma gt_Fin [simp]: "gt (Fin x) (Fin y) = (y < x)"
  by (simp add: gt_def)

lemma Math_min_Fin [simp]: "Math_min (Fin x) (Fin y) = Fin (min x y)"
  by (simp add: min_def)

lemma Math_max_Fin [simp]: "Math_max (Fin x) (Fin y) = Fin (max x y)"
  by (simp add: max_def)

lemma floor_rat_numeral [simp]:
  "\<lfloor>(numeral a :: rat) / numeral b\<rfloor> = numeral a div numeral b"
  using floor_divide_of_int_eq [of "numeral a" "numeral b", where ?'a = rat] by simp

lemma floor_rat_neg_numeral [simp]:
  "\<lfloor>- ((numeral a :: rat) / numeral b)\<rfloor> = - numeral a div numeral b"
  using floor_divide_of_int_eq [of "- numeral a" "numeral b", where ?'a = rat] by simp

lemma ceiling_rat_numeral [simp]:
  "\<lceil>(numeral a :: rat) / numeral b\<rceil> = - (- numeral a div numeral b)"
  by (simp add: ceiling_def)

section \<open>The payback period\<close>

lemma round_tenth_nonneg:
  fixes x :: rat
  assumes "0 \<le> x"
  shows "0 \<le> (of_int \<lfloor>x * 10 + 1 / 2\<rfloor> :: rat) / 10"
proof -
  from assms have "0 \<le> x * 10 + 1 / 2" by simp
  then have "0 \<le> \<lfloor>x * 10 + 1 / 2\<rfloor>" by simp
  then show ?thesis by simp
qed

lemma payback_nonneg:
  assumes "le (Fin 0) c" "lt (Fin 0) b" "\<not> (c = PInf \<and> b = PInf)"
  shows "le (Fin 0) (divide (Math_round (mul (divide c b) (Fin 10))) (Fin 10))"
proof (cases c)
  case c: (Fin x)
  show ?thesis
  proof (cases b)
    case (Fin y)
    with c assms have "0 \<le> x / y" by simp
    then have "0 \<le> (of_int \<lfloor>x / y * 10 + 1 / 2\<rfloor> :: rat) / 10" by (rule round_tenth_nonneg)
    with c Fin assms show ?thesis by simp
  qed (use c assms in simp_all)
next
  case c: PInf
  show ?thesis by (cases b) (use c assms in simp_all)
qed (use assms in simp_all)

text \<open>
  C2 (as the code has it). For every \<open>systemCost\<close> and \<open>annualBenefit\<close>: when the
  benefit is zero or negative \<open>calculatePaybackPeriod\<close> returns positive infinity; otherwise
  it returns the quotient \<open>systemCost / annualBenefit\<close> rounded to one decimal place, as
  \<open>Math.round(quotient * 10) / 10\<close>. When the cost is a number that is not negative and the
  benefit is a number, the two not both infinite, the result is a number that is not
  negative (never NaN or \<open>undefined\<close>).
\<close>

theorem calculatePaybackPeriod_spec:
  "(le b (Fin 0) \<longrightarrow> calculatePaybackPeriod c b = PInf)
   \<and> (\<not> le b (Fin 0) \<longrightarrow>
        calculatePaybackPeriod c b = divide (Math_round (mul (divide c b) (Fin 10))) (Fin 10))
   \<and> (le (Fin 0) c \<and> (le b (Fin 0) \<or> lt (Fin 0) b) \<and> \<not> (c = PInf \<and> b = PInf) \<longrightarrow>
        le (Fin 0) (calculatePaybackPeriod c b))"
proof -
  have 1: "le b (Fin 0) \<Longrightarrow> calculatePaybackPeriod c b = PInf"
    by (simp add: calculatePaybackPeriod_def)
  have 2: "\<not> le b (Fin 0) \<Longrightarrow>
        calculatePaybackPeriod c b = divide (Math_round (mul (divide c b) (Fin 10))) (Fin 10)"
    by (simp add: calculatePaybackPeriod_def)
  have 3: "le (Fin 0) (calculatePaybackPeriod c b)"
    if "le (Fin 0) c" "le b (Fin 0) \<or> lt (Fin 0) b" "\<not> (c = PInf \<and> b = PInf)"
  proof (cases "le b (Fin 0)")
    case True
    then show ?thesis by (simp add: 1)
  next
    case False
    with that have "lt (Fin 0) b" by simp
    from payback_nonneg [OF that(1) this that(3)] False show ?thesis by (simp add: 2)
  qed
  from 1 2 3 show ?thesis by blast
qed

text \<open>
  The theorem at a cost of 6000 with no benefit, and at a cost of 6500 with a benefit
  of 600, where the payback is 10.8 years.
\<close>

theorem calculatePaybackPeriod_spec_witness:
  "calculatePaybackPeriod (Fin 6000) (Fin 0) = PInf
   \<and> calculatePaybackPeriod (Fin 6500) (Fin 600) = Fin (108 / 10)
   \<and> le (Fin 0) (calculatePaybackPeriod (Fin 6500) (Fin 600))"
  using calculatePaybackPeriod_spec [of "Fin 0" "Fin 6000"]
    calculatePaybackPeriod_spec [of "Fin 600" "Fin 6500"]
  by simp

text \<open>
  The claim as the specification states it, for every cost and every benefit, fails. A
  negative cost with a positive benefit gives a negative payback; an infinite cost gives a
  payback that is not finite; a benefit that is NaN, or an infinite cost with an infinite
  benefit, gives NaN.
\<close>

theorem calculatePaybackPeriod_negative:
  "calculatePaybackPeriod (Fin (- 1000)) (Fin 100) = Fin (- 10)
   \<and> lt (calculatePaybackPeriod (Fin (- 1000)) (Fin 100)) (Fin 0)
   \<and> calculatePaybackPeriod PInf (Fin 1) = PInf
   \<and> calculatePaybackPeriod (Fin 1) NaN = NaN
   \<and> calculatePaybackPeriod PInf PInf = NaN"
  by (simp add: calculatePaybackPeriod_def)

section \<open>The lead score\<close>

lemmas weights =
  SCORING_WEIGHTS_systemSize_def SCORING_WEIGHTS_paybackPeriod_def
  SCORING_WEIGHTS_annualSavings_def SCORING_WEIGHTS_roofArea_def
  SCORING_WEIGHTS_phoneProvided_def SCORING_WEIGHTS_nameProvided_def
  SCORING_WEIGHTS_selfConsumption_def SCORING_WEIGHTS_usageLevel_def
  SCORE_THRESHOLDS_hot_def SCORE_THRESHOLDS_warm_def

lemma round_nonneg:
  fixes x :: rat
  assumes "0 \<le> x"
  shows "(0 :: rat) \<le> of_int \<lfloor>x + 1 / 2\<rfloor>"
proof -
  from assms have "0 \<le> x + 1 / 2" by simp
  then have "0 \<le> \<lfloor>x + 1 / 2\<rfloor>" by simp
  then show ?thesis by simp
qed

lemma round_le_numeral:
  fixes x :: rat
  assumes "x \<le> of_int n"
  shows "of_int \<lfloor>x + 1 / 2\<rfloor> \<le> (of_int n :: rat)"
proof -
  from assms have "x + 1 / 2 < of_int (n + 1)" by simp
  then have "\<lfloor>x + 1 / 2\<rfloor> < n + 1" by (simp only: floor_less_iff)
  then show ?thesis by simp
qed

lemma capped_points:
  assumes "0 \<le> x" "0 \<le> c" "0 < d"
  shows "\<exists>t. Math_min (Fin c) (Math_round (mul (divide (Fin x) (Fin d)) (Fin c))) = Fin t
           \<and> 0 \<le> t \<and> t \<le> c"
proof -
  from assms have "0 \<le> x / d * c" by simp
  then have "(0 :: rat) \<le> of_int \<lfloor>x / d * c + 1 / 2\<rfloor>" by (rule round_nonneg)
  with assms show ?thesis by simp
qed

lemma payback_points:
  assumes "p \<noteq> NaN" "p \<noteq> Undefined"
  shows "\<exists>t. (if le p (Fin 7) then Fin 20
              else if ge p (Fin 15) then Fin 0
              else Math_round (mul (divide (sub (Fin 15) p) (Fin 8)) (Fin 20))) = Fin t
           \<and> 0 \<le> t \<and> t \<le> 20"
proof (cases p)
  case (Fin y)
  show ?thesis
  proof (cases "7 < y \<and> y < 15")
    case True
    then have "0 \<le> (15 - y) / 8 * 20" by simp
    then have a: "(0 :: rat) \<le> of_int \<lfloor>(15 - y) / 8 * 20 + 1 / 2\<rfloor>" by (rule round_nonneg)
    from True have "(15 - y) / 8 * 20 \<le> of_int 20" by simp
    then have "of_int \<lfloor>(15 - y) / 8 * 20 + 1 / 2\<rfloor> \<le> (of_int 20 :: rat)"
      by (rule round_le_numeral)
    with a True Fin show ?thesis by simp
  next
    case False
    with Fin show ?thesis by auto
  qed
qed (use assms in \<open>simp_all add: ge_def sub_def\<close>)

lemma self_consumption_points:
  assumes "0 \<le> q" "q \<le> 1"
  shows "\<exists>t. Math_round (mul (Fin q) (Fin 10)) = Fin t \<and> 0 \<le> t \<and> t \<le> 10"
proof -
  from assms have "0 \<le> q * 10" by simp
  then have a: "(0 :: rat) \<le> of_int \<lfloor>q * 10 + 1 / 2\<rfloor>" by (rule round_nonneg)
  from assms have "q * 10 \<le> of_int 10" by simp
  then have "of_int \<lfloor>q * 10 + 1 / 2\<rfloor> \<le> (of_int 10 :: rat)" by (rule round_le_numeral)
  with a show ?thesis by simp
qed

lemma roof_area_points:
  assumes "0 \<le> n"
  shows "\<exists>t. (if ge (Fin n) (Fin 12) then Fin 10
              else Math_round (mul (divide (Fin n) (Fin 12)) (Fin 10))) = Fin t
           \<and> 0 \<le> t \<and> t \<le> 10"
proof (cases "12 \<le> n")
  case True
  then show ?thesis by simp
next
  case False
  from assms have "0 \<le> n / 12 * 10" by simp
  then have a: "(0 :: rat) \<le> of_int \<lfloor>n / 12 * 10 + 1 / 2\<rfloor>" by (rule round_nonneg)
  from False have "n / 12 * 10 \<le> of_int 10" by simp
  then have "of_int \<lfloor>n / 12 * 10 + 1 / 2\<rfloor> \<le> (of_int 10 :: rat)" by (rule round_le_numeral)
  with a False show ?thesis by simp
qed

lemma factor_names:
  "map LeadScoreFactor.name (factors (calculateLeadScore results contact)) =
     [''System Size'', ''Payback Period'', ''Annual Savings'', ''Phone Provided'',
      ''Name Provided'', ''Self-Consumption'', ''Roof Area'', ''Usage Level'']"
  by (simp add: calculateLeadScore_def Let_def)

lemma total_score_bounds:
  assumes "recommendedSystemSize results = Fin s" "0 \<le> s"
    and "paybackPeriod results \<noteq> NaN" "paybackPeriod results \<noteq> Undefined"
    and "totalAnnualBenefit results = Fin b" "0 \<le> b"
    and "selfConsumptionRatio results = Fin q" "0 \<le> q" "q \<le> 1"
    and "numberOfPanels results = Fin n" "0 \<le> n"
    and "estimatedAnnualGeneration results = Fin g" "0 \<le> g"
  shows "\<exists>t. totalScore (calculateLeadScore results contact) = Fin t \<and> 0 \<le> t \<and> t \<le> 100"
proof -
  obtain t1 where t1: "Math_min (Fin 20) (Math_round (mul (divide (Fin s) (Fin 6)) (Fin 20))) = Fin t1"
      "0 \<le> t1" "t1 \<le> 20"
    using capped_points [of s 20 6] assms by auto
  obtain t2 where t2: "(if le (paybackPeriod results) (Fin 7) then Fin 20
              else if ge (paybackPeriod results) (Fin 15) then Fin 0
              else Math_round (mul (divide (sub (Fin 15) (paybackPeriod results)) (Fin 8)) (Fin 20))) = Fin t2"
      "0 \<le> t2" "t2 \<le> 20"
    using payback_points [of "paybackPeriod results"] assms by auto
  obtain t3 where t3: "Math_min (Fin 15) (Math_round (mul (divide (Fin b) (Fin 500)) (Fin 15))) = Fin t3"
      "0 \<le> t3" "t3 \<le> 15"
    using capped_points [of b 15 500] assms by auto
  obtain t4 where t4: "(if present (phone contact) then Fin 15 else Fin 0) = Fin t4"
      "0 \<le> t4" "t4 \<le> 15"
    by (cases "present (phone contact)") auto
  obtain t5 where t5: "(if present (LeadContact.name contact) then Fin 5 else Fin 0) = Fin t5"
      "0 \<le> t5" "t5 \<le> 5"
    by (cases "present (LeadContact.name contact)") auto
  obtain t6 where t6: "Math_round (mul (Fin q) (Fin 10)) = Fin t6" "0 \<le> t6" "t6 \<le> 10"
    using self_consumption_points [of q] assms by auto
  obtain t7 where t7: "(if ge (Fin n) (Fin 12) then Fin 10
              else Math_round (mul (divide (Fin n) (Fin 12)) (Fin 10))) = Fin t7"
      "0 \<le> t7" "t7 \<le> 10"
    using roof_area_points [of n] assms by auto
  obtain t8 where t8: "Math_min (Fin 5) (Math_round (mul (divide (Fin g) (Fin 4000)) (Fin 5))) = Fin t8"
      "0 \<le> t8" "t8 \<le> 5"
    using capped_points [of g 5 4000] assms by auto
  have "totalScore (calculateLeadScore results contact) = Fin (t1 + t2 + t3 + t4 + t5 + t6 + t7 + t8)"
    unfolding calculateLeadScore_def Let_def weights
    by (simp only: assms(1,5,7,10,12) t1(1) t2(1) t3(1) t4(1) t5(1) t6(1) t7(1) t8(1)
          LeadScore.select_convs add.simps add_0_left)
  moreover have "0 \<le> t1 + t2 + t3 + t4 + t5 + t6 + t7 + t8"
    using t1 t2 t3 t4 t5 t6 t7 t8 by linarith
  moreover have "t1 + t2 + t3 + t4 + t5 + t6 + t7 + t8 \<le> 100"
    using t1 t2 t3 t4 t5 t6 t7 t8 by linarith
  ultimately show ?thesis by blast
qed

text \<open>
  C3 (as the code has it). For every results value and every contact the factor list has
  the eight entries System Size, Payback Period, Annual Savings, Phone Provided, Name
  Provided, Self-Consumption, Roof Area, Usage Level, in this order. When the system size,
  the total benefit, the panel count and the annual generation are finite and not negative,
  the self-consumption ratio is a finite number between 0 and 1, and the payback period is
  a number (finite or infinite, not NaN), the total score is a number between 0 and 100.
\<close>

theorem calculateLeadScore_range:
  "map LeadScoreFactor.name (factors (calculateLeadScore results contact)) =
     [''System Size'', ''Payback Period'', ''Annual Savings'', ''Phone Provided'',
      ''Name Provided'', ''Self-Consumption'', ''Roof Area'', ''Usage Level'']
   \<and> (recommendedSystemSize results = Fin s \<and> 0 \<le> s
        \<and> paybackPeriod results \<noteq> NaN \<and> paybackPeriod results \<noteq> Undefined
        \<and> totalAnnualBenefit results = Fin b \<and> 0 \<le> b
        \<and> selfConsumptionRatio results = Fin q \<and> 0 \<le> q \<and> q \<le> 1
        \<and> numberOfPanels results = Fin n \<and> 0 \<le> n
        \<and> estimatedAnnualGeneration results = Fin g \<and> 0 \<le> g
      \<longrightarrow> (\<exists>t. totalScore (calculateLeadScore results contact) = Fin t
             \<and> 0 \<le> t \<and> t \<le> 100))"
  using factor_names [of results contact]
    total_score_bounds [of results s b q n g contact]
  by blast

theorem calculateLeadScore_range_witness:
  "\<exists>t. totalScore (calculateLeadScore scoring_results contact_full) = Fin t
     \<and> 0 \<le> t \<and> t \<le> 100"
  using calculateLeadScore_range
    [of scoring_results contact_full 6 745 "1 / 2" 15 5000]
  by (simp add: scoring_results_def)

text \<open>
  The claim as the specification states it, for every results value, fails: a
  self-consumption ratio of 2 scores 20 points for that factor and 110 in total, and a
  system size of \<open>-60\<close> scores \<open>-200\<close> points for that factor and \<open>-145\<close> in total.
\<close>

theorem calculateLeadScore_out_of_range:
  "totalScore (calculateLeadScore (scoring_results\<lparr>selfConsumptionRatio := Fin 2\<rparr>)
      contact_full) = Fin 110
   \<and> totalScore (calculateLeadScore (scoring_results\<lparr>recommendedSystemSize := Fin (- 60)\<rparr>)
      contact_email_only) = Fin (- 145)"
  by (simp add: calculateLeadScore_def scoring_results_def contact_full_def
        contact_email_only_def weights Let_def)

text \<open>
  C4 (as the code has it). For the results of the example, a contact with a phone number
  and a name scores 95 and is hot; a contact with an email address only scores 75, which is
  20 points lower (15 for the phone number and 5 for the name), and is still hot.
\<close>

theorem calculateLeadScore_example:
  "totalScore (calculateLeadScore scoring_results contact_full) = Fin 95
   \<and> category (calculateLeadScore scoring_results contact_full) = hot
   \<and> ge (totalScore (calculateLeadScore scoring_results contact_full)) (Fin 70)
   \<and> totalScore (calculateLeadScore scoring_results contact_email_only) = Fin (95 - 20)
   \<and> category (calculateLeadScore scoring_results contact_email_only) = hot"
  by (simp add: calculateLeadScore_def scoring_results_def contact_full_def
        contact_email_only_def weights Let_def)

text \<open>
  The claim as the specification states it fails for the contact with an email address
  only: the total is not 35 points lower and the category is not warm.
\<close>

theorem calculateLeadScore_email_only:
  "totalScore (calculateLeadScore scoring_results contact_email_only) \<noteq> Fin (95 - 35)
   \<and> category (calculateLeadScore scoring_results contact_email_only) \<noteq> warm"
  by (simp add: calculateLeadScore_def scoring_results_def contact_full_def
        contact_email_only_def weights Let_def)

section \<open>The pitch factor\<close>

lemma pitches_sorted:
  "sort (map fst PITCH_FACTORS) = [0, 10, 15, 20, 25, 30, 35, 40, 45, 50, 60, 70, 80, 90]"
  by (simp add: PITCH_FACTORS_def)

lemma pitch_loop_hit:
  "lo \<le> p \<Longrightarrow> p \<le> up \<Longrightarrow>
   pitch_loop (Fin p) (lo # up # rest) =
     add (get_prop PITCH_FACTORS lo)
       (mul (divide (Fin (p - lo)) (Fin (up - lo)))
          (sub (get_prop PITCH_FACTORS up) (get_prop PITCH_FACTORS lo)))"
  by (simp add: Let_def)

lemma pitch_loop_skip:
  "up < p \<Longrightarrow> pitch_loop (Fin p) (lo # up # rest) = pitch_loop (Fin p) (up # rest)"
  by simp

lemma clamp_id: "0 \<le> p \<Longrightarrow> p \<le> 90 \<Longrightarrow> Math_max (Fin 0) (Math_min (Fin 90) (Fin p)) = Fin p"
  by simp

lemma anchor_pairs:
  "set (zip PITCH_FACTORS (tl PITCH_FACTORS)) =
     {((0, 9 / 10), (10, 94 / 100)), ((10, 94 / 100), (15, 96 / 100)),
      ((15, 96 / 100), (20, 98 / 100)), ((20, 98 / 100), (25, 99 / 100)),
      ((25, 99 / 100), (30, 1)), ((30, 1), (35, 1)), ((35, 1), (40, 99 / 100)),
      ((40, 99 / 100), (45, 97 / 100)), ((45, 97 / 100), (50, 94 / 100)),
      ((50, 94 / 100), (60, 88 / 100)), ((60, 88 / 100), (70, 8 / 10)),
      ((70, 8 / 10), (80, 7 / 10)), ((80, 7 / 10), (90, 55 / 100))}"
  by (simp add: PITCH_FACTORS_def)

lemma getPitchFactor_interpolates:
  assumes "((lo, flo), (up, fup)) \<in> set (zip PITCH_FACTORS (tl PITCH_FACTORS))"
    and "lo < p" "p \<le> up"
  shows "getPitchFactor (Fin p) = Fin (flo + (p - lo) / (up - lo) * (fup - flo))"
  using assms unfolding anchor_pairs
  by (elim insertE emptyE; clarify;
      simp add: getPitchFactor_def pitches_sorted pitch_loop_hit pitch_loop_skip
        get_prop_def PITCH_FACTORS_def del: pitch_loop.simps)

lemma getPitchFactor_zero: "getPitchFactor (Fin 0) = Fin (9 / 10)"
  by (simp add: getPitchFactor_def pitches_sorted pitch_loop_hit get_prop_def PITCH_FACTORS_def
        del: pitch_loop.simps)

lemma getPitchFactor_clamps:
  "getPitchFactor (Fin p) = getPitchFactor (Fin (max 0 (min 90 p)))"
  by (simp add: getPitchFactor_def)

lemma getPitchFactor_anchors:
  "map (\<lambda>(a, f). getPitchFactor (Fin a)) PITCH_FACTORS = map (\<lambda>(a, f). Fin f) PITCH_FACTORS"
  by (simp add: getPitchFactor_def pitch_loop_hit pitch_loop_skip get_prop_def
        PITCH_FACTORS_def del: pitch_loop.simps)

lemma convex_between:
  fixes a b t :: rat
  assumes "0 < t" "t < 1"
  shows "a \<noteq> b \<Longrightarrow> min a b < a + t * (b - a)" and "a \<noteq> b \<Longrightarrow> a + t * (b - a) < max a b"
    and "min a b \<le> a + t * (b - a)" and "a + t * (b - a) \<le> max a b"
proof -
  have up: "x < y \<Longrightarrow> x < x + t * (y - x) \<and> x + t * (y - x) < y" for x y :: rat
  proof -
    assume "x < y"
    with assms have 1: "0 < t * (y - x)" by simp
    from \<open>x < y\<close> assms have "t * (y - x) < 1 * (y - x)"
      by (intro mult_strict_right_mono) simp_all
    with 1 show ?thesis by simp
  qed
  have down: "y < x \<Longrightarrow> y < x + t * (y - x) \<and> x + t * (y - x) < x" for x y :: rat
  proof -
    assume "y < x"
    with assms have 1: "0 < t * (x - y)" by simp
    from \<open>y < x\<close> assms have 2: "t * (x - y) < 1 * (x - y)"
      by (intro mult_strict_right_mono) simp_all
    have 3: "t * (y - x) = - (t * (x - y))" by (simp add: algebra_simps)
    from 1 2 3 show ?thesis by simp
  qed
  have strict: "min a b < a + t * (b - a) \<and> a + t * (b - a) < max a b" if "a \<noteq> b"
  proof (cases "a < b")
    case True
    from up [OF True] True show ?thesis by simp
  next
    case False
    with that have "b < a" by simp
    from down [OF this] this show ?thesis by simp
  qed
  show lo: "a \<noteq> b \<Longrightarrow> min a b < a + t * (b - a)"
    using strict by simp
  show hi: "a \<noteq> b \<Longrightarrow> a + t * (b - a) < max a b"
    using strict by simp
  show "min a b \<le> a + t * (b - a)"
  proof (cases "a = b")
    case True
    then show ?thesis by simp
  next
    case False
    then show ?thesis using lo by simp
  qed
  show "a + t * (b - a) \<le> max a b"
  proof (cases "a = b")
    case True
    then show ?thesis by simp
  next
    case False
    then show ?thesis using hi by simp
  qed
qed

lemma getPitchFactor_90: "getPitchFactor (Fin 90) = Fin (55 / 100)"
  using getPitchFactor_interpolates [of 80 "7 / 10" 90 "55 / 100" 90] by (simp add: anchor_pairs)

lemma getPitchFactor_idem:
  "getPitchFactor pitch = getPitchFactor (Math_max (Fin 0) (Math_min (Fin 90) pitch))"
proof (cases pitch)
  case (Fin p)
  have "max 0 (min 90 (max 0 (min 90 p))) = max 0 (min 90 p)" by simp
  with Fin show ?thesis by (simp add: getPitchFactor_def)
qed (simp_all add: getPitchFactor_def)

lemma clamp_range:
  assumes "pitch \<noteq> NaN" "pitch \<noteq> Undefined"
  shows "le (Fin 0) (Math_max (Fin 0) (Math_min (Fin 90) pitch))"
    and "le (Math_max (Fin 0) (Math_min (Fin 90) pitch)) (Fin 90)"
  using assms by (cases pitch; simp)+

lemma getPitchFactor_not_a_number:
  "getPitchFactor NaN = Fin 1" "getPitchFactor Undefined = Fin 1"
  by (simp_all add: getPitchFactor_def pitches_sorted ge_def get_prop_def PITCH_FACTORS_def)

lemma getPitchFactor_below:
  assumes "lt pitch (Fin 0)"
  shows "getPitchFactor pitch = Fin (9 / 10)"
proof (cases pitch)
  case (Fin p)
  with assms have "max 0 (min 90 p) = 0" by simp
  with Fin getPitchFactor_clamps [of p] getPitchFactor_zero show ?thesis by simp
next
  case NInf
  have "getPitchFactor NInf = getPitchFactor (Fin 0)" by (simp add: getPitchFactor_def)
  with NInf getPitchFactor_zero show ?thesis by simp
qed (use assms in simp_all)

lemma getPitchFactor_above:
  assumes "lt (Fin 90) pitch"
  shows "getPitchFactor pitch = Fin (55 / 100)"
proof (cases pitch)
  case (Fin p)
  with assms have "max 0 (min 90 p) = 90" by simp
  with Fin getPitchFactor_clamps [of p] getPitchFactor_90 show ?thesis by simp
next
  case PInf
  have "getPitchFactor PInf = getPitchFactor (Fin 90)" by (simp add: getPitchFactor_def)
  with PInf getPitchFactor_90 show ?thesis by simp
qed (use assms in simp_all)

lemma getPitchFactor_between:
  assumes m: "((lo, flo), (up, fup)) \<in> set (zip PITCH_FACTORS (tl PITCH_FACTORS))"
    and "lt (Fin lo) pitch" "lt pitch (Fin up)"
  shows "le (Fin (min flo fup)) (getPitchFactor pitch)"
    and "le (getPitchFactor pitch) (Fin (max flo fup))"
proof -
  from assms(2,3) obtain p where p: "pitch = Fin p" "lo < p" "p < up"
    by (cases pitch) simp_all
  let ?t = "(p - lo) / (up - lo)"
  from p have t: "0 < ?t" "?t < 1" by simp_all
  from m p have v: "getPitchFactor pitch = Fin (flo + ?t * (fup - flo))"
    using getPitchFactor_interpolates [of lo flo up fup p] by simp
  from convex_between(3) [OF t, of flo fup] v
  show "le (Fin (min flo fup)) (getPitchFactor pitch)" by simp
  from convex_between(4) [OF t, of flo fup] v
  show "le (getPitchFactor pitch) (Fin (max flo fup))" by simp
qed

text \<open>
  C5 (as the code has it). For every pitch \<open>getPitchFactor\<close> gives the value it gives at
  the clamped pitch \<open>Math.max(0, Math.min(90, pitch))\<close>, which lies in the range from 0
  to 90 when the pitch is a number: below 0 the result is the table's value at 0, above 90
  the value at 90. A pitch that is not a number is not clamped and gives the value at 35.
  At every anchor of the pitch-factor table the result is the table's value, at 35 the
  value 1. For a pitch strictly between two neighbouring anchors the result lies between
  the two anchors' table values, the bounds included.
\<close>

theorem getPitchFactor_spec:
  "getPitchFactor pitch = getPitchFactor (Math_max (Fin 0) (Math_min (Fin 90) pitch))
   \<and> (pitch \<noteq> NaN \<and> pitch \<noteq> Undefined \<longrightarrow>
        le (Fin 0) (Math_max (Fin 0) (Math_min (Fin 90) pitch))
        \<and> le (Math_max (Fin 0) (Math_min (Fin 90) pitch)) (Fin 90))
   \<and> (lt pitch (Fin 0) \<longrightarrow> getPitchFactor pitch = Fin (9 / 10))
   \<and> (lt (Fin 90) pitch \<longrightarrow> getPitchFactor pitch = Fin (55 / 100))
   \<and> (pitch = NaN \<or> pitch = Undefined \<longrightarrow> getPitchFactor pitch = Fin 1)
   \<and> map (\<lambda>(a, f). getPitchFactor (Fin a)) PITCH_FACTORS = map (\<lambda>(a, f). Fin f) PITCH_FACTORS
   \<and> getPitchFactor (Fin 35) = Fin 1
   \<and> (((lo, flo), (up, fup)) \<in> set (zip PITCH_FACTORS (tl PITCH_FACTORS))
        \<and> lt (Fin lo) pitch \<and> lt pitch (Fin up)
      \<longrightarrow> le (Fin (min flo fup)) (getPitchFactor pitch)
          \<and> le (getPitchFactor pitch) (Fin (max flo fup)))"
proof -
  have 1: "getPitchFactor pitch = getPitchFactor (Math_max (Fin 0) (Math_min (Fin 90) pitch))"
    by (rule getPitchFactor_idem)
  have 2: "pitch \<noteq> NaN \<and> pitch \<noteq> Undefined \<longrightarrow>
        le (Fin 0) (Math_max (Fin 0) (Math_min (Fin 90) pitch))
        \<and> le (Math_max (Fin 0) (Math_min (Fin 90) pitch)) (Fin 90)"
    using clamp_range [of pitch] by blast
  have 3: "lt pitch (Fin 0) \<longrightarrow> getPitchFactor pitch = Fin (9 / 10)"
    using getPitchFactor_below [of pitch] by blast
  have 4: "lt (Fin 90) pitch \<longrightarrow> getPitchFactor pitch = Fin (55 / 100)"
    using getPitchFactor_above [of pitch] by blast
  have 5: "pitch = NaN \<or> pitch = Undefined \<longrightarrow> getPitchFactor pitch = Fin 1"
    using getPitchFactor_not_a_number by blast
  have 6: "getPitchFactor (Fin 35) = Fin 1"
    using getPitchFactor_interpolates [of 30 1 35 1 35] by (simp add: anchor_pairs)
  have 7: "((lo, flo), (up, fup)) \<in> set (zip PITCH_FACTORS (tl PITCH_FACTORS))
        \<and> lt (Fin lo) pitch \<and> lt pitch (Fin up)
      \<longrightarrow> le (Fin (min flo fup)) (getPitchFactor pitch)
          \<and> le (getPitchFactor pitch) (Fin (max flo fup))"
    using getPitchFactor_between [of lo flo up fup pitch] by blast
  from 1 2 3 4 5 6 7 getPitchFactor_anchors show ?thesis by blast
qed

text \<open>
  The theorem at a pitch of 12, between the anchors 10 and 15, at a pitch of 120 and at a
  pitch that is NaN.
\<close>

theorem getPitchFactor_spec_witness:
  "le (Fin (94 / 100)) (getPitchFactor (Fin 12)) \<and> le (getPitchFactor (Fin 12)) (Fin (96 / 100))
   \<and> getPitchFactor (Fin 120) = Fin (55 / 100)
   \<and> getPitchFactor NaN = Fin 1"
proof -
  have m: "((10, 94 / 100), (15, 96 / 100)) \<in> set (zip PITCH_FACTORS (tl PITCH_FACTORS))"
    by (simp add: anchor_pairs)
  have a: "le (Fin (min (94 / 100) (96 / 100))) (getPitchFactor (Fin 12))
      \<and> le (getPitchFactor (Fin 12)) (Fin (max (94 / 100) (96 / 100)))"
    using getPitchFactor_spec [of "Fin 12" 10 "94 / 100" 15 "96 / 100"] m by simp
  have "lt (Fin 90) (Fin 120)" by simp
  with getPitchFactor_spec [of "Fin 120" 0 0 0 0]
  have b: "getPitchFactor (Fin 120) = Fin (55 / 100)" by blast
  have c: "getPitchFactor NaN = Fin 1"
    using getPitchFactor_spec [of NaN 0 0 0 0] by simp
  from a b c show ?thesis by simp
qed

text \<open>
  The claim as the specification states it fails between the anchors 30 and 35, whose
  table values are both 1: at a pitch of 32 the result is 1, which is not strictly between
  the two values. And a pitch that is NaN is not clamped to the range from 0 to 90: the
  clamped pitch is NaN.
\<close>

theorem getPitchFactor_plateau:
  "((30, 1), (35, 1)) \<in> set (zip PITCH_FACTORS (tl PITCH_FACTORS))
   \<and> getPitchFactor (Fin 32) = Fin 1 \<and> \<not> lt (Fin 1) (getPitchFactor (Fin 32))
   \<and> \<not> lt (getPitchFactor (Fin 32)) (Fin 1)
   \<and> Math_max (Fin 0) (Math_min (Fin 90) NaN) = NaN
   \<and> getPitchFactor NaN = Fin 1"
proof -
  have "getPitchFactor (Fin 32) = Fin 1"
    using getPitchFactor_interpolates [of 30 1 35 1 32] by (simp add: anchor_pairs)
  then show ?thesis by (simp add: anchor_pairs getPitchFactor_not_a_number)
qed

section \<open>The 25-year return\<close>

lemma Math_pow_Fin [simp]: "Math_pow (Fin x) n = Fin (x ^ n)"
  by (cases n) simp_all

lemma roi_loop_Fin:
  "1 \<le> year \<Longrightarrow> year \<le> 26 \<Longrightarrow>
   roi_loop (Fin d) (Fin g) (Fin q) (Fin er) (Fin xr) year (Fin t) =
     Fin (t + (\<Sum>k = year - 1..<25. (1 - d) ^ k * ((g * q * er + (g - g * q) * xr) / 100)))"
proof (induction "26 - year" arbitrary: year t)
  case 0
  then have "year = 26" by simp
  then show ?case by (subst roi_loop.simps) simp
next
  case (Suc n)
  then have y: "year \<le> 25" "1 \<le> year + 1" "year + 1 \<le> 26" "n = 26 - (year + 1)" by simp_all
  have s: "(\<Sum>k = year - 1..<25. (1 - d) ^ k * ((g * q * er + (g - g * q) * xr) / 100)) =
      (1 - d) ^ (year - 1) * ((g * q * er + (g - g * q) * xr) / 100)
      + (\<Sum>k = year..<25. (1 - d) ^ k * ((g * q * er + (g - g * q) * xr) / 100))"
  proof -
    from Suc.prems y have "year - 1 < 25" "Suc (year - 1) = year" by simp_all
    then show ?thesis using sum.atLeast_Suc_lessThan [of "year - 1" 25] by simp
  qed
  define A where "A = g * (1 - d) ^ (year - 1) * q * er / 100
      + (g * (1 - d) ^ (year - 1) - g * (1 - d) ^ (year - 1) * q) * xr / 100"
  have A: "A = (1 - d) ^ (year - 1) * ((g * q * er + (g - g * q) * xr) / 100)"
    by (simp add: A_def field_simps)
  have "roi_loop (Fin d) (Fin g) (Fin q) (Fin er) (Fin xr) year (Fin t) =
      roi_loop (Fin d) (Fin g) (Fin q) (Fin er) (Fin xr) (year + 1) (Fin (t + A))"
    using y(1) by (subst roi_loop.simps) (simp add: Let_def A_def del: roi_loop.simps)
  also have "\<dots> = roi_loop (Fin d) (Fin g) (Fin q) (Fin er) (Fin xr) (year + 1)
        (Fin (t + (1 - d) ^ (year - 1) * ((g * q * er + (g - g * q) * xr) / 100)))"
    by (simp only: A)
  also have "\<dots> = Fin (t + (1 - d) ^ (year - 1) * ((g * q * er + (g - g * q) * xr) / 100)
      + (\<Sum>k = year + 1 - 1..<25. (1 - d) ^ k * ((g * q * er + (g - g * q) * xr) / 100)))"
    using Suc.hyps(1) [OF y(4) y(2) y(3)] by (simp del: roi_loop.simps)
  finally show ?case using s by (simp del: roi_loop.simps)
qed

lemma calculateROI25Years_with_Fin:
  "calculateROI25Years_with cfg (Fin g) (Fin q) (Fin er) (Fin xr) (Fin c) =
     Fin (of_int \<lfloor>(\<Sum>k = 0..<25. (1 - annualDegradation cfg) ^ k
            * ((g * q * er + (g - g * q) * xr) / 100)) - c + 1 / 2\<rfloor>)"
  by (simp add: calculateROI25Years_with_def roi_loop_Fin del: roi_loop.simps)


lemma degraded_sum_closed:
  fixes x b :: rat
  assumes "x \<noteq> 1"
  shows "(\<Sum>k = 0..<25. x ^ k * b) = (1 - x ^ 25) / (1 - x) * b"
proof -
  have "(\<Sum>k = 0..<25. x ^ k * b) = (\<Sum>k = 0..<25. x ^ k) * b"
    by (simp add: sum_distrib_right)
  also have "(\<Sum>k = 0..<25. x ^ k) = (1 - x ^ 25) / (1 - x)"
    using assms sum_gp_strict [of x 25] by (simp add: atLeast0LessThan)
  finally show ?thesis .
qed

lemma calculateROI25Years_Fin:
  "calculateROI25Years (Fin g) (Fin q) (Fin er) (Fin xr) (Fin c) =
     Fin (of_int \<lfloor>(1 - (199 / 200) ^ 25) / (1 - 199 / 200)
            * ((g * q * er + (g - g * q) * xr) / 100) - c + 1 / 2\<rfloor>)"
proof -
  have d: "1 - annualDegradation SOLAR_CONFIG = 199 / 200"
    by (simp add: SOLAR_CONFIG_def)
  have s: "(\<Sum>k = 0..<25. (199 / 200) ^ k * ((g * q * er + (g - g * q) * xr) / 100)) =
      (1 - (199 / 200) ^ 25) / (1 - 199 / 200) * ((g * q * er + (g - g * q) * xr) / 100)"
    by (rule degraded_sum_closed) simp
  show ?thesis
    by (simp only: calculateROI25Years_def calculateROI25Years_with_Fin d s)
qed






section \<open>Table lookups\<close>

lemma get_member_missing:
  "k \<notin> set (map fst tbl) \<Longrightarrow> k \<notin> set Object_prototype \<Longrightarrow> get_member tbl k = Missing"
  by (simp add: get_member_def map_of_eq_None_iff [THEN iffD2])

lemma get_member_inherited:
  "k \<notin> set (map fst tbl) \<Longrightarrow> k \<in> set Object_prototype \<Longrightarrow> get_member tbl k = Inherited"
  by (simp add: get_member_def map_of_eq_None_iff [THEN iffD2])

lemma default_entry: "get_member REGIONAL_IRRADIANCE ''default'' = Own 950"
  by (simp add: get_member_def REGIONAL_IRRADIANCE_def)

lemma getOrientationFactor_enumerated:
  "lt (Fin 0) (as_number (getOrientationFactor (RoofOrientation_str ori)))
   \<and> le (as_number (getOrientationFactor (RoofOrientation_str ori))) (Fin 1)"
  by (cases ori) (simp_all add: getOrientationFactor_def get_member_def SOLAR_CONFIG_def)

lemma calculateSelfConsumption_enumerated:
  "lt (Fin 0) (as_number (calculateSelfConsumption (HomeOccupancy_str occ)))
   \<and> lt (as_number (calculateSelfConsumption (HomeOccupancy_str occ))) (Fin 1)"
  by (cases occ) (simp_all add: calculateSelfConsumption_def get_member_def SOLAR_CONFIG_def)

text \<open>
  C9 (as the code has it). Let a key be neither a key of the table nor the name of a
  member that the table inherits as an object (\<open>toString\<close>, \<open>constructor\<close> and the other
  names of \<open>Object_prototype\<close>). On such a region \<open>getRegionalIrradiance\<close> returns the
  table's entry named \<open>default\<close>, 950. The orientation-factor and self-consumption tables
  have no default entry: on such a key \<open>getOrientationFactor\<close> and
  \<open>calculateSelfConsumption\<close> return \<open>undefined\<close>. On the values of their parameter types,
  the nine orientations and the four occupancies, they return a number, a factor above 0
  and at most 1, respectively below 1.
\<close>

theorem table_lookup_miss:
  "(region \<notin> set (map fst REGIONAL_IRRADIANCE) \<and> region \<notin> set Object_prototype \<longrightarrow>
      getRegionalIrradiance region = get_member REGIONAL_IRRADIANCE ''default''
      \<and> getRegionalIrradiance region = Own 950)
   \<and> (orientation \<notin> set (map fst (orientationFactors SOLAR_CONFIG))
        \<and> orientation \<notin> set Object_prototype \<longrightarrow>
        getOrientationFactor orientation = Missing)
   \<and> (occupancy \<notin> set (map fst (selfConsumptionFactors SOLAR_CONFIG))
        \<and> occupancy \<notin> set Object_prototype \<longrightarrow>
        calculateSelfConsumption occupancy = Missing)
   \<and> lt (Fin 0) (as_number (getOrientationFactor (RoofOrientation_str ori)))
   \<and> le (as_number (getOrientationFactor (RoofOrientation_str ori))) (Fin 1)
   \<and> lt (Fin 0) (as_number (calculateSelfConsumption (HomeOccupancy_str occ)))
   \<and> lt (as_number (calculateSelfConsumption (HomeOccupancy_str occ))) (Fin 1)"
proof -
  have 1: "getRegionalIrradiance region = get_member REGIONAL_IRRADIANCE ''default''
      \<and> getRegionalIrradiance region = Own 950"
    if "region \<notin> set (map fst REGIONAL_IRRADIANCE)" "region \<notin> set Object_prototype"
    using get_member_missing [OF that] default_entry
    by (simp add: getRegionalIrradiance_def)
  have 2: "getOrientationFactor orientation = Missing"
    if "orientation \<notin> set (map fst (orientationFactors SOLAR_CONFIG))"
      "orientation \<notin> set Object_prototype"
    using get_member_missing [OF that] by (simp add: getOrientationFactor_def)
  have 3: "calculateSelfConsumption occupancy = Missing"
    if "occupancy \<notin> set (map fst (selfConsumptionFactors SOLAR_CONFIG))"
      "occupancy \<notin> set Object_prototype"
    using get_member_missing [OF that] by (simp add: calculateSelfConsumption_def)
  from 1 2 3 getOrientationFactor_enumerated [of ori] calculateSelfConsumption_enumerated [of occ]
  show ?thesis by blast
qed

text \<open>The theorem at an unknown region, orientation and occupancy.\<close>

theorem table_lookup_miss_witness:
  "getRegionalIrradiance ''Unknown Region'' = Own 950
   \<and> getOrientationFactor ''up'' = Missing
   \<and> calculateSelfConsumption ''never'' = Missing"
proof -
  have "''Unknown Region'' \<notin> set (map fst REGIONAL_IRRADIANCE)
      \<and> ''Unknown Region'' \<notin> set Object_prototype"
    by (simp add: REGIONAL_IRRADIANCE_def Object_prototype_def)
  moreover have "''up'' \<notin> set (map fst (orientationFactors SOLAR_CONFIG))
      \<and> ''up'' \<notin> set Object_prototype"
    by (simp add: SOLAR_CONFIG_def Object_prototype_def)
  moreover have "''never'' \<notin> set (map fst (selfConsumptionFactors SOLAR_CONFIG))
      \<and> ''never'' \<notin> set Object_prototype"
    by (simp add: SOLAR_CONFIG_def Object_prototype_def)
  ultimately show ?thesis
    using table_lookup_miss [of "''Unknown Region''" "''up''" "''never''"] by blast
qed

text \<open>
  The claim as the specification states it fails. The two tables without a default entry
  return \<open>undefined\<close>, not a default value, on a key they do not have. And on the name of
  an inherited member, such as \<open>toString\<close>, the three lookups return that member:
  \<open>getRegionalIrradiance\<close> does not return the default entry, and the other two return
  neither a factor nor \<open>undefined\<close>.
\<close>

theorem lookup_without_default:
  "getOrientationFactor ''up'' = Missing \<and> calculateSelfConsumption ''never'' = Missing
   \<and> getRegionalIrradiance ''toString'' = Inherited
   \<and> getOrientationFactor ''toString'' = Inherited
   \<and> calculateSelfConsumption ''constructor'' = Inherited"
  by (simp add: getOrientationFactor_def calculateSelfConsumption_def getRegionalIrradiance_def
        get_member_def SOLAR_CONFIG_def REGIONAL_IRRADIANCE_def Object_prototype_def)

section \<open>Overrides resolved by truthiness\<close>

lemma metadata_calculateSolarEstimate:
  "metadata (calculateSolarEstimate inputs irradiance) =
     \<lparr> irradianceUsed = or_else (optional irradiance) (Fin (ukAverageIrradiance SOLAR_CONFIG)),
       irradianceSource = (if truthy (optional irradiance) then PVGIS else UK_AVERAGE),
       electricityRate =
         or_else (optional (electricityUnitRate inputs))
           (Fin (electricityRatePence UK_ENERGY_CONFIG)),
       exportRate =
         or_else (optional (exportTariffRate inputs))
           (Fin (segExportRatePence UK_ENERGY_CONFIG)),
       CalculationMetadata.systemLossFactor = Fin (SolarConfig.systemLossFactor SOLAR_CONFIG),
       orientationFactor =
         as_number (getOrientationFactor (RoofOrientation_str (roofOrientation inputs))) \<rparr>"
  unfolding calculateSolarEstimate_def Let_def
  by (simp only: CalculatorResults.select_convs)

lemma falsy_irradiance:
  assumes "\<not> truthy (optional irradiance)"
  shows "calculateSolarEstimate inputs irradiance = calculateSolarEstimate inputs None"
proof -
  have a: "or_else (optional irradiance) d = or_else (optional None) d" for d
    using assms by (simp add: or_else_def)
  have b: "truthy (optional irradiance) = truthy (optional None)"
    using assms by simp
  show ?thesis unfolding calculateSolarEstimate_def by (simp only: a b)
qed

lemma zero_override:
  "or_else (optional (Some 0)) d = d" "or_else (optional None) d = d"
  by (simp_all add: or_else_def)

lemma electricityUnitRate_update:
  "roofOrientation (i\<lparr>electricityUnitRate := v\<rparr>) = roofOrientation i"
  "roofPitch (i\<lparr>electricityUnitRate := v\<rparr>) = roofPitch i"
  "roofArea (i\<lparr>electricityUnitRate := v\<rparr>) = roofArea i"
  "shadingFactor (i\<lparr>electricityUnitRate := v\<rparr>) = shadingFactor i"
  "annualElectricityUsage (i\<lparr>electricityUnitRate := v\<rparr>) = annualElectricityUsage i"
  "homeOccupancy (i\<lparr>electricityUnitRate := v\<rparr>) = homeOccupancy i"
  "electricityUnitRate (i\<lparr>electricityUnitRate := v\<rparr>) = v"
  "exportTariffRate (i\<lparr>electricityUnitRate := v\<rparr>) = exportTariffRate i"
  by simp_all

lemma exportTariffRate_update:
  "roofOrientation (i\<lparr>exportTariffRate := v\<rparr>) = roofOrientation i"
  "roofPitch (i\<lparr>exportTariffRate := v\<rparr>) = roofPitch i"
  "roofArea (i\<lparr>exportTariffRate := v\<rparr>) = roofArea i"
  "shadingFactor (i\<lparr>exportTariffRate := v\<rparr>) = shadingFactor i"
  "annualElectricityUsage (i\<lparr>exportTariffRate := v\<rparr>) = annualElectricityUsage i"
  "homeOccupancy (i\<lparr>exportTariffRate := v\<rparr>) = homeOccupancy i"
  "electricityUnitRate (i\<lparr>exportTariffRate := v\<rparr>) = electricityUnitRate i"
  "exportTariffRate (i\<lparr>exportTariffRate := v\<rparr>) = v"
  by simp_all

lemma zero_electricityUnitRate:
  "calculateSolarEstimate (inputs\<lparr>electricityUnitRate := Some 0\<rparr>) irradiance =
   calculateSolarEstimate (inputs\<lparr>electricityUnitRate := None\<rparr>) irradiance"
  unfolding calculateSolarEstimate_def
  by (simp only: electricityUnitRate_update zero_override)

lemma zero_exportTariffRate:
  "calculateSolarEstimate (inputs\<lparr>exportTariffRate := Some 0\<rparr>) irradiance =
   calculateSolarEstimate (inputs\<lparr>exportTariffRate := None\<rparr>) irradiance"
  unfolding calculateSolarEstimate_def
  by (simp only: exportTariffRate_update zero_override)

text \<open>
  C10. When the irradiance argument is absent or 0, \<open>calculateSolarEstimate\<close> returns what
  it returns without the argument: the metadata record the UK average as the irradiance used
  and \<open>UK_AVERAGE\<close> as its source. An \<open>electricityUnitRate\<close> or \<open>exportTariffRate\<close>
  override of 0 gives the result of the inputs without the override, and the metadata record
  the default rate of the energy-pricing configuration.
\<close>

theorem falsy_overrides:
  "(irradiance = None \<or> irradiance = Some 0 \<longrightarrow>
      calculateSolarEstimate inputs irradiance = calculateSolarEstimate inputs None
      \<and> irradianceUsed (metadata (calculateSolarEstimate inputs irradiance))
          = Fin (ukAverageIrradiance SOLAR_CONFIG)
      \<and> irradianceSource (metadata (calculateSolarEstimate inputs irradiance)) = UK_AVERAGE)
   \<and> (electricityUnitRate inputs = Some 0 \<longrightarrow>
        calculateSolarEstimate inputs irradiance
          = calculateSolarEstimate (inputs\<lparr>electricityUnitRate := None\<rparr>) irradiance
        \<and> electricityRate (metadata (calculateSolarEstimate inputs irradiance))
            = Fin (electricityRatePence UK_ENERGY_CONFIG))
   \<and> (exportTariffRate inputs = Some 0 \<longrightarrow>
        calculateSolarEstimate inputs irradiance
          = calculateSolarEstimate (inputs\<lparr>exportTariffRate := None\<rparr>) irradiance
        \<and> exportRate (metadata (calculateSolarEstimate inputs irradiance))
            = Fin (segExportRatePence UK_ENERGY_CONFIG))"
proof -
  have 1: "calculateSolarEstimate inputs irradiance = calculateSolarEstimate inputs None
      \<and> irradianceUsed (metadata (calculateSolarEstimate inputs irradiance))
          = Fin (ukAverageIrradiance SOLAR_CONFIG)
      \<and> irradianceSource (metadata (calculateSolarEstimate inputs irradiance)) = UK_AVERAGE"
    if "irradiance = None \<or> irradiance = Some 0"
  proof -
    from that have f: "\<not> truthy (optional irradiance)" by auto
    have m: "irradianceUsed (metadata (calculateSolarEstimate inputs irradiance))
          = Fin (ukAverageIrradiance SOLAR_CONFIG)
      \<and> irradianceSource (metadata (calculateSolarEstimate inputs irradiance)) = UK_AVERAGE"
      using f by (simp add: metadata_calculateSolarEstimate or_else_def)
    from falsy_irradiance [OF f, of inputs] m show ?thesis by blast
  qed
  have 2: "calculateSolarEstimate inputs irradiance
          = calculateSolarEstimate (inputs\<lparr>electricityUnitRate := None\<rparr>) irradiance
        \<and> electricityRate (metadata (calculateSolarEstimate inputs irradiance))
            = Fin (electricityRatePence UK_ENERGY_CONFIG)"
    if z: "electricityUnitRate inputs = Some 0"
  proof -
    have e: "inputs\<lparr>electricityUnitRate := Some 0\<rparr> = inputs" using z by simp
    have m: "electricityRate (metadata (calculateSolarEstimate inputs irradiance))
            = Fin (electricityRatePence UK_ENERGY_CONFIG)"
      using z by (simp add: metadata_calculateSolarEstimate or_else_def)
    from zero_electricityUnitRate [of inputs irradiance] e m show ?thesis by simp
  qed
  have 3: "calculateSolarEstimate inputs irradiance
          = calculateSolarEstimate (inputs\<lparr>exportTariffRate := None\<rparr>) irradiance
        \<and> exportRate (metadata (calculateSolarEstimate inputs irradiance))
            = Fin (segExportRatePence UK_ENERGY_CONFIG)"
    if z: "exportTariffRate inputs = Some 0"
  proof -
    have e: "inputs\<lparr>exportTariffRate := Some 0\<rparr> = inputs" using z by simp
    have m: "exportRate (metadata (calculateSolarEstimate inputs irradiance))
            = Fin (segExportRatePence UK_ENERGY_CONFIG)"
      using z by (simp add: metadata_calculateSolarEstimate or_else_def)
    from zero_exportTariffRate [of inputs irradiance] e m show ?thesis by simp
  qed
  from 1 2 3 show ?thesis by blast
qed

text \<open>The theorem at the example inputs with both overrides and the irradiance at 0.\<close>

theorem falsy_overrides_witness:
  "irradianceUsed (metadata (calculateSolarEstimate
       (example_inputs\<lparr>electricityUnitRate := Some 0, exportTariffRate := Some 0\<rparr>) (Some 0)))
     = Fin 1000
   \<and> irradianceSource (metadata (calculateSolarEstimate
       (example_inputs\<lparr>electricityUnitRate := Some 0, exportTariffRate := Some 0\<rparr>) (Some 0)))
     = UK_AVERAGE
   \<and> electricityRate (metadata (calculateSolarEstimate
       (example_inputs\<lparr>electricityUnitRate := Some 0, exportTariffRate := Some 0\<rparr>) (Some 0)))
     = Fin (2769 / 100)
   \<and> exportRate (metadata (calculateSolarEstimate
       (example_inputs\<lparr>electricityUnitRate := Some 0, exportTariffRate := Some 0\<rparr>) (Some 0)))
     = Fin 15"
proof -
  let ?i = "example_inputs\<lparr>electricityUnitRate := Some 0, exportTariffRate := Some 0\<rparr>"
  have h: "Some 0 = None \<or> Some 0 = Some (0 :: rat)" "electricityUnitRate ?i = Some 0"
    "exportTariffRate ?i = Some 0"
    by simp_all
  from falsy_overrides [of "Some 0" ?i] h
  have "irradianceUsed (metadata (calculateSolarEstimate ?i (Some 0)))
        = Fin (ukAverageIrradiance SOLAR_CONFIG)
      \<and> irradianceSource (metadata (calculateSolarEstimate ?i (Some 0))) = UK_AVERAGE
      \<and> electricityRate (metadata (calculateSolarEstimate ?i (Some 0)))
        = Fin (electricityRatePence UK_ENERGY_CONFIG)
      \<and> exportRate (metadata (calculateSolarEstimate ?i (Some 0)))
        = Fin (segExportRatePence UK_ENERGY_CONFIG)"
    by blast
  then show ?thesis by (simp add: SOLAR_CONFIG_def UK_ENERGY_CONFIG_def)
qed

section \<open>The data flow of the pipeline\<close>

text \<open>Each field of the result in terms of the inputs and of the fields computed before it.\<close>

lemma recommendedSystemSize_calculateSolarEstimate:
  "recommendedSystemSize (calculateSolarEstimate inputs irradiance) =
     (let orientationFactor' =
            as_number (getOrientationFactor (RoofOrientation_str (roofOrientation inputs)));
          pitchFactor = getPitchFactor (Fin (roofPitch inputs));
          shadingFactor' = Fin (shadingFactor inputs);
          usedIrradiance = or_else (optional irradiance) (Fin (ukAverageIrradiance SOLAR_CONFIG));
          maxSize = calculateMaxSystemSize (Fin (roofArea inputs));
          recommendedSize =
            calculateRecommendedSize (Fin (annualElectricityUsage inputs)) usedIrradiance
              orientationFactor' pitchFactor shadingFactor'
      in determineFinalSystemSize recommendedSize maxSize)"
  unfolding calculateSolarEstimate_def Let_def
  by (simp only: CalculatorResults.select_convs)

lemma estimatedAnnualGeneration_calculateSolarEstimate:
  "estimatedAnnualGeneration (calculateSolarEstimate inputs irradiance) =
     (let orientationFactor' =
            as_number (getOrientationFactor (RoofOrientation_str (roofOrientation inputs)));
          pitchFactor = getPitchFactor (Fin (roofPitch inputs));
          shadingFactor' = Fin (shadingFactor inputs);
          usedIrradiance = or_else (optional irradiance) (Fin (ukAverageIrradiance SOLAR_CONFIG));
          finalSize = recommendedSystemSize (calculateSolarEstimate inputs irradiance)
      in calculateAnnualGeneration finalSize usedIrradiance orientationFactor' pitchFactor
           shadingFactor')"
  unfolding calculateSolarEstimate_def Let_def
  by (simp only: CalculatorResults.select_convs)

lemma split_calculateSolarEstimate:
  "selfConsumptionRatio (calculateSolarEstimate inputs irradiance) =
     as_number (calculateSelfConsumption (HomeOccupancy_str (homeOccupancy inputs)))"
  "CalculatorResults.selfConsumedKwh (calculateSolarEstimate inputs irradiance) =
     Math_round (mul (estimatedAnnualGeneration (calculateSolarEstimate inputs irradiance))
       (selfConsumptionRatio (calculateSolarEstimate inputs irradiance)))"
  "CalculatorResults.exportedKwh (calculateSolarEstimate inputs irradiance) =
     sub (estimatedAnnualGeneration (calculateSolarEstimate inputs irradiance))
       (CalculatorResults.selfConsumedKwh (calculateSolarEstimate inputs irradiance))"
  "monthlyGeneration (calculateSolarEstimate inputs irradiance) =
     calculateMonthlyGeneration (estimatedAnnualGeneration (calculateSolarEstimate inputs irradiance))
       (selfConsumptionRatio (calculateSolarEstimate inputs irradiance))"
  unfolding calculateSolarEstimate_def Let_def
  by (simp_all only: CalculatorResults.select_convs)

lemma financial_calculateSolarEstimate:
  "totalAnnualBenefit (calculateSolarEstimate inputs irradiance) =
     add (calculateAnnualSavings
            (CalculatorResults.selfConsumedKwh (calculateSolarEstimate inputs irradiance))
            (electricityRate (metadata (calculateSolarEstimate inputs irradiance))))
         (calculateExportEarnings
            (CalculatorResults.exportedKwh (calculateSolarEstimate inputs irradiance))
            (exportRate (metadata (calculateSolarEstimate inputs irradiance))))"
  "estimatedSystemCost (calculateSolarEstimate inputs irradiance) =
     calculateSystemCost (recommendedSystemSize (calculateSolarEstimate inputs irradiance))"
  "paybackPeriod (calculateSolarEstimate inputs irradiance) =
     calculatePaybackPeriod (estimatedSystemCost (calculateSolarEstimate inputs irradiance))
       (totalAnnualBenefit (calculateSolarEstimate inputs irradiance))"
  "roi25Years (calculateSolarEstimate inputs irradiance) =
     calculateROI25Years (estimatedAnnualGeneration (calculateSolarEstimate inputs irradiance))
       (selfConsumptionRatio (calculateSolarEstimate inputs irradiance))
       (electricityRate (metadata (calculateSolarEstimate inputs irradiance)))
       (exportRate (metadata (calculateSolarEstimate inputs irradiance)))
       (estimatedSystemCost (calculateSolarEstimate inputs irradiance))"
  unfolding calculateSolarEstimate_def Let_def
  by (simp_all only: CalculatorResults.select_convs CalculationMetadata.select_convs)

section \<open>The end-to-end example\<close>

lemma getPitchFactor_35: "getPitchFactor (Fin 35) = Fin 1"
  using getPitchFactor_interpolates [of 30 1 35 1 35] by (simp add: anchor_pairs)

lemma example_estimate:
  "metadata (calculateSolarEstimate example_inputs None) =
     \<lparr> irradianceUsed = Fin 1000, irradianceSource = UK_AVERAGE,
       electricityRate = Fin (2769 / 100), exportRate = Fin 15,
       CalculationMetadata.systemLossFactor = Fin (86 / 100), orientationFactor = Fin 1 \<rparr>"
  "recommendedSystemSize (calculateSolarEstimate example_inputs None) = Fin (7 / 2)"
  "estimatedAnnualGeneration (calculateSolarEstimate example_inputs None) = Fin 3010"
  "selfConsumptionRatio (calculateSolarEstimate example_inputs None) = Fin (1 / 2)"
  "CalculatorResults.selfConsumedKwh (calculateSolarEstimate example_inputs None) = Fin 1505"
  "CalculatorResults.exportedKwh (calculateSolarEstimate example_inputs None) = Fin 1505"
  "totalAnnualBenefit (calculateSolarEstimate example_inputs None) = Fin (16062 / 25)"
  "estimatedSystemCost (calculateSolarEstimate example_inputs None) = Fin 4550"
  "paybackPeriod (calculateSolarEstimate example_inputs None) = Fin (71 / 10)"
  "roi25Years (calculateSolarEstimate example_inputs None) = Fin 10584"
proof -
  let ?r = "calculateSolarEstimate example_inputs None"
  show m: "metadata ?r =
     \<lparr> irradianceUsed = Fin 1000, irradianceSource = UK_AVERAGE,
       electricityRate = Fin (2769 / 100), exportRate = Fin 15,
       CalculationMetadata.systemLossFactor = Fin (86 / 100), orientationFactor = Fin 1 \<rparr>"
    by (simp add: metadata_calculateSolarEstimate example_inputs_def or_else_def
          getOrientationFactor_def get_member_def SOLAR_CONFIG_def UK_ENERGY_CONFIG_def)
  show size: "recommendedSystemSize ?r = Fin (7 / 2)"
    by (simp add: recommendedSystemSize_calculateSolarEstimate Let_def example_inputs_def
          or_else_def getOrientationFactor_def get_member_def SOLAR_CONFIG_def getPitchFactor_35
          calculateMaxSystemSize_def calculateRecommendedSize_def determineFinalSystemSize_def)
  have inp: "roofOrientation example_inputs = S" "roofPitch example_inputs = 35"
    "shadingFactor example_inputs = 1"
    by (simp_all add: example_inputs_def)
  show gen: "estimatedAnnualGeneration ?r = Fin 3010"
    by (simp add: estimatedAnnualGeneration_calculateSolarEstimate size Let_def
          inp or_else_def getOrientationFactor_def get_member_def SOLAR_CONFIG_def
          getPitchFactor_35 calculateAnnualGeneration_def)
  show ratio: "selfConsumptionRatio ?r = Fin (1 / 2)"
    by (simp add: split_calculateSolarEstimate(1) example_inputs_def
          calculateSelfConsumption_def get_member_def SOLAR_CONFIG_def)
  show self: "CalculatorResults.selfConsumedKwh ?r = Fin 1505"
    by (simp add: split_calculateSolarEstimate(2) gen ratio)
  show exported: "CalculatorResults.exportedKwh ?r = Fin 1505"
    by (simp add: split_calculateSolarEstimate(3) gen self)
  show total: "totalAnnualBenefit ?r = Fin (16062 / 25)"
    by (simp add: financial_calculateSolarEstimate(1) self exported m
          calculateAnnualSavings_def calculateExportEarnings_def)
  show cost: "estimatedSystemCost ?r = Fin 4550"
    by (simp add: financial_calculateSolarEstimate(2) size calculateSystemCost_def
          SYSTEM_COST_CONFIG_def)
  show "paybackPeriod ?r = Fin (71 / 10)"
    by (simp add: financial_calculateSolarEstimate(3) cost total calculatePaybackPeriod_def)
  show "roi25Years ?r = Fin 10584"
    by (simp add: financial_calculateSolarEstimate(4) gen ratio m cost
          calculateROI25Years_Fin power_divide)
qed

text \<open>
  C7. For the inputs of the example (a south-facing roof of 30 square metres at a pitch of
  35 degrees, no shading, a usage of 3500 kWh, daytime occupancy) and no irradiance argument,
  the metadata name \<open>UK_AVERAGE\<close> as the source and the UK average constant as the
  irradiance used, the system size is strictly between 2 and 8 kWp, the payback period
  strictly between 5 and 15 years, and the 25-year return is positive. The values are
  3.5 kWp, 7.1 years and 10584.
\<close>

theorem example_estimate_in_range:
  "irradianceSource (metadata (calculateSolarEstimate example_inputs None)) = UK_AVERAGE
   \<and> irradianceUsed (metadata (calculateSolarEstimate example_inputs None))
       = Fin (ukAverageIrradiance SOLAR_CONFIG)
   \<and> lt (Fin 2) (recommendedSystemSize (calculateSolarEstimate example_inputs None))
   \<and> lt (recommendedSystemSize (calculateSolarEstimate example_inputs None)) (Fin 8)
   \<and> lt (Fin 5) (paybackPeriod (calculateSolarEstimate example_inputs None))
   \<and> lt (paybackPeriod (calculateSolarEstimate example_inputs None)) (Fin 15)
   \<and> lt (Fin 0) (roi25Years (calculateSolarEstimate example_inputs None))
   \<and> recommendedSystemSize (calculateSolarEstimate example_inputs None) = Fin (7 / 2)
   \<and> paybackPeriod (calculateSolarEstimate example_inputs None) = Fin (71 / 10)
   \<and> roi25Years (calculateSolarEstimate example_inputs None) = Fin 10584"
  by (simp add: example_estimate SOLAR_CONFIG_def)

section \<open>The final system size\<close>

text \<open>
  C8. \<open>determineFinalSystemSize\<close> takes the smaller of the recommendation and the roof's
  maximum and then rounds it to the nearest 0.5 kWp, so a maximum that is not a multiple
  of 0.5 kWp can be rounded up: with a recommendation of 10 kWp and a roof maximum of
  5.3 kWp the result is 5.5 kWp, above the maximum. The pipeline reaches this case: a roof
  of 26.5 square metres has a maximum of 5.3 kWp, a usage of 9000 kWh a recommendation of
  9.4 kWp, and the size returned by \<open>calculateSolarEstimate\<close> is 5.5 kWp.
\<close>

theorem determineFinalSystemSize_exceeds_max:
  "determineFinalSystemSize (Fin 10) (Fin (53 / 10)) = Fin (11 / 2)
   \<and> \<not> le (determineFinalSystemSize (Fin 10) (Fin (53 / 10))) (Fin (53 / 10))
   \<and> calculateMaxSystemSize (Fin (roofArea small_roof_inputs)) = Fin (53 / 10)
   \<and> recommendedSystemSize (calculateSolarEstimate small_roof_inputs None) = Fin (11 / 2)
   \<and> \<not> le (recommendedSystemSize (calculateSolarEstimate small_roof_inputs None))
          (calculateMaxSystemSize (Fin (roofArea small_roof_inputs)))"
proof -
  have 1: "determineFinalSystemSize (Fin 10) (Fin (53 / 10)) = Fin (11 / 2)"
    by (simp add: determineFinalSystemSize_def)
  have 2: "calculateMaxSystemSize (Fin (roofArea small_roof_inputs)) = Fin (53 / 10)"
    by (simp add: small_roof_inputs_def example_inputs_def calculateMaxSystemSize_def
          SOLAR_CONFIG_def)
  have 3: "recommendedSystemSize (calculateSolarEstimate small_roof_inputs None) = Fin (11 / 2)"
    by (simp add: recommendedSystemSize_calculateSolarEstimate Let_def small_roof_inputs_def
          example_inputs_def or_else_def getOrientationFactor_def get_member_def SOLAR_CONFIG_def
          getPitchFactor_35 calculateMaxSystemSize_def calculateRecommendedSize_def
          determineFinalSystemSize_def)
  show ?thesis by (simp add: 1 2 3)
qed

end
